theory Spec2Isabelle
  imports Complex_Main "HOL-Library.Sublist"
begin

section \<open>Values and configuration\<close>

text \<open>
  The values that travel between the handlers, the geolocation service, the session and
  the hits table are Python scalars: \<open>None\<close>, a boolean, an integer, a float or a
  string. Python floats are idealised as exact reals; integers are taken to fit the 64
  bits SQLite stores.
\<close>

datatype scalar = SNone | SBool bool | SInt int | SFloat real | SStr string

text \<open>Python truthiness, as used by \<open>if not session.get("admin")\<close> and \<open>if url\<close>.\<close>

fun truthy :: "scalar \<Rightarrow> bool" where
  "truthy SNone = False"
| "truthy (SBool b) = b"
| "truthy (SInt n) = (n \<noteq> 0)"
| "truthy (SFloat x) = (x \<noteq> 0)"
| "truthy (SStr s) = (s \<noteq> [])"

text \<open>\<open>OUTDIR = "generated"\<close>; \<open>ADMIN_PASS\<close> is read from the process environment.\<close>

definition OUTDIR :: string where
  "OUTDIR = ''generated''"

record config =
  ADMIN_PASS :: string

section \<open>Database helpers\<close>

text \<open>
  One row of the table \<open>hits\<close>. The column \<open>id\<close> is
  \<open>INTEGER PRIMARY KEY AUTOINCREMENT\<close>; the other columns are filled from the
  arguments of \<open>insert_hit\<close> and from the clock.
\<close>

record hit =
  h_id :: nat
  h_doc_ref :: string
  h_user_id :: scalar
  h_ip :: string
  h_ua :: string
  h_ts :: string
  h_lat :: scalar
  h_lon :: scalar
  h_city :: scalar
  h_region :: scalar
  h_country :: scalar

text \<open>
  The store: the rows in insertion order, and the counter SQLite keeps for an
  \<open>AUTOINCREMENT\<close> column (the largest row id ever handed out). A new row gets one more
  than the larger of that counter and the largest id present. Row ids are unbounded
  naturals here; SQLite's 64-bit limit is not modelled.
\<close>

record hits_db =
  db_rows :: "hit list"
  db_seq :: nat

text \<open>
  SQLite converts a value to the affinity of the column it is stored in. Its conversions
  between numbers and their text form are not under src and are taken as parameters: the
  text of an integer, the text of a float, and the number a text denotes when it is a
  well-formed numeric literal.
\<close>

record sqlite =
  sq_text_of_int :: "int \<Rightarrow> string"
  sq_text_of_float :: "real \<Rightarrow> string"
  sq_float_of_text :: "string \<Rightarrow> real option"

text \<open>
  A column declared \<open>TEXT\<close> stores a number as its text (a Python boolean is bound as
  the integer 1 or 0). A column declared \<open>REAL\<close> stores an integer as a float and a
  text that denotes a number as that number; any other text stays text. \<open>NULL\<close> stays
  \<open>NULL\<close>.
\<close>

fun text_affinity :: "sqlite \<Rightarrow> scalar \<Rightarrow> scalar" where
  "text_affinity sq SNone = SNone"
| "text_affinity sq (SBool b) = SStr (sq_text_of_int sq (if b then 1 else 0))"
| "text_affinity sq (SInt n) = SStr (sq_text_of_int sq n)"
| "text_affinity sq (SFloat x) = SStr (sq_text_of_float sq x)"
| "text_affinity sq (SStr s) = SStr s"

fun real_affinity :: "sqlite \<Rightarrow> scalar \<Rightarrow> scalar" where
  "real_affinity sq SNone = SNone"
| "real_affinity sq (SBool b) = SFloat (if b then 1 else 0)"
| "real_affinity sq (SInt n) = SFloat (real_of_int n)"
| "real_affinity sq (SFloat x) = SFloat x"
| "real_affinity sq (SStr s) =
     (case sq_float_of_text sq s of None \<Rightarrow> SStr s | Some x \<Rightarrow> SFloat x)"

definition max_rowid :: "hit list \<Rightarrow> nat" where
  "max_rowid rs = foldr (\<lambda>r m. max (h_id r) m) rs 0"

definition next_rowid :: "hits_db \<Rightarrow> nat" where
  "next_rowid db = Suc (max (db_seq db) (max_rowid (db_rows db)))"

text \<open>
  \<open>insert_hit(doc_ref, user_id, ip, ua, lat, lon, city, region, country)\<close>. The first
  two arguments are SQLite's conversions and the reading of
  \<open>datetime.datetime.utcnow().isoformat()\<close> at the call. The document reference, the
  address, the user agent and the time stamp are strings and go into \<open>TEXT\<close> columns
  as they are; \<open>user_id\<close>, \<open>city\<close>, \<open>region\<close> and \<open>country\<close> go into \<open>TEXT\<close>
  columns, \<open>lat\<close> and \<open>lon\<close> into \<open>REAL\<close> columns.
\<close>

definition insert_hit ::
  "sqlite \<Rightarrow> string \<Rightarrow> hits_db \<Rightarrow> string \<Rightarrow> scalar \<Rightarrow> string \<Rightarrow> string \<Rightarrow>
   scalar \<Rightarrow> scalar \<Rightarrow> scalar \<Rightarrow> scalar \<Rightarrow> scalar \<Rightarrow> hits_db" where
  "insert_hit sq utcnow db doc_ref user_id ip ua lat lon city region country =
     (let new_id = next_rowid db in
      \<lparr>db_rows = db_rows db @
         [\<lparr>h_id = new_id, h_doc_ref = doc_ref, h_user_id = text_affinity sq user_id,
           h_ip = ip, h_ua = ua, h_ts = utcnow @ ''Z'',
           h_lat = real_affinity sq lat, h_lon = real_affinity sq lon,
           h_city = text_affinity sq city, h_region = text_affinity sq region,
           h_country = text_affinity sq country\<rparr>],
       db_seq = new_id\<rparr>)"

text \<open>
  \<open>fetch_hits(limit=1000)\<close>: \<open>SELECT * FROM hits ORDER BY id DESC LIMIT ?\<close>. In SQLite
  a negative \<open>LIMIT\<close> means no limit.
\<close>

definition default_limit :: int where
  "default_limit = 1000"

definition fetch_hits :: "hits_db \<Rightarrow> int \<Rightarrow> hit list" where
  "fetch_hits db limit =
     (let ordered = rev (sort_key h_id (db_rows db))
      in if limit < 0 then ordered else take (nat limit) ordered)"

text \<open>The arguments of one call of \<open>insert_hit\<close>, with the clock reading first.\<close>

record hit_call =
  c_utcnow :: string
  c_doc_ref :: string
  c_user_id :: scalar
  c_ip :: string
  c_ua :: string
  c_lat :: scalar
  c_lon :: scalar
  c_city :: scalar
  c_region :: scalar
  c_country :: scalar

definition record_call :: "sqlite \<Rightarrow> hits_db \<Rightarrow> hit_call \<Rightarrow> hits_db" where
  "record_call sq db c =
     insert_hit sq (c_utcnow c) db (c_doc_ref c) (c_user_id c) (c_ip c) (c_ua c)
       (c_lat c) (c_lon c) (c_city c) (c_region c) (c_country c)"

text \<open>A sequence of calls, one after the other.\<close>

definition record_all :: "sqlite \<Rightarrow> hits_db \<Rightarrow> hit_call list \<Rightarrow> hits_db" where
  "record_all sq db cs = foldl (record_call sq) db cs"

text \<open>What a stored row says about the call that made it.\<close>

definition call_of :: "hit \<Rightarrow> hit_call" where
  "call_of r =
     \<lparr>c_utcnow = take (length (h_ts r) - 1) (h_ts r), c_doc_ref = h_doc_ref r,
      c_user_id = h_user_id r, c_ip = h_ip r, c_ua = h_ua r, c_lat = h_lat r,
      c_lon = h_lon r, c_city = h_city r, c_region = h_region r, c_country = h_country r\<rparr>"

definition new_rows :: "sqlite \<Rightarrow> hits_db \<Rightarrow> hit_call list \<Rightarrow> hit list" where
  "new_rows sq db cs = drop (length (db_rows db)) (db_rows (record_all sq db cs))"

text \<open>
  The arguments of a call as the table holds them, and the calls whose values already
  have the type of their column.
\<close>

definition as_stored :: "sqlite \<Rightarrow> hit_call \<Rightarrow> hit_call" where
  "as_stored sq c =
     c\<lparr>c_user_id := text_affinity sq (c_user_id c),
       c_lat := real_affinity sq (c_lat c), c_lon := real_affinity sq (c_lon c),
       c_city := text_affinity sq (c_city c), c_region := text_affinity sq (c_region c),
       c_country := text_affinity sq (c_country c)\<rparr>"

fun is_text :: "scalar \<Rightarrow> bool" where
  "is_text SNone = True"
| "is_text (SStr s) = True"
| "is_text v = False"

fun is_real :: "scalar \<Rightarrow> bool" where
  "is_real SNone = True"
| "is_real (SFloat x) = True"
| "is_real v = False"

definition well_typed :: "hit_call \<Rightarrow> bool" where
  "well_typed c =
     (is_text (c_user_id c) \<and> is_real (c_lat c) \<and> is_real (c_lon c)
      \<and> is_text (c_city c) \<and> is_text (c_region c) \<and> is_text (c_country c))"

section \<open>Strings and paths\<close>

text \<open>
  \<open>s.split(d)\<close> never returns an empty list: the result is given as its first field and
  the remaining fields, so that \<open>[0]\<close> and \<open>[-1]\<close> are total.
\<close>

fun split_on :: "char \<Rightarrow> string \<Rightarrow> string \<times> string list" where
  "split_on d [] = ([], [])"
| "split_on d (c # cs) =
     (let (w, ws) = split_on d cs in if c = d then ([], w # ws) else (c # w, ws))"

definition split_fields :: "char \<Rightarrow> string \<Rightarrow> string list" where
  "split_fields d s = (let (w, ws) = split_on d s in w # ws)"

definition first_field :: "char \<Rightarrow> string \<Rightarrow> string" where
  "first_field d s = fst (split_on d s)"

definition last_field :: "char \<Rightarrow> string \<Rightarrow> string" where
  "last_field d s = (let (w, ws) = split_on d s in if ws = [] then w else last ws)"

text \<open>
  \<open>str.strip()\<close> removes the characters for which \<open>str.isspace()\<close> holds. A header
  value reaches the application as Latin-1 text, one character for each byte, and these
  are the whitespace characters among them.
\<close>

definition is_space :: "char \<Rightarrow> bool" where
  "is_space c = (c \<in> set [CHR 0x09, CHR 0x0A, CHR 0x0B, CHR 0x0C, CHR 0x0D,
                           CHR 0x1C, CHR 0x1D, CHR 0x1E, CHR 0x1F, CHR 0x20,
                           CHR 0x85, CHR 0xA0])"

text \<open>\<open>str.lower()\<close> on ASCII text.\<close>

definition strip :: "string \<Rightarrow> string" where
  "strip s = rev (dropWhile is_space (rev (dropWhile is_space s)))"

definition lower_char :: "char \<Rightarrow> char" where
  "lower_char c =
     (let n = (of_char c :: nat) in if 65 \<le> n \<and> n \<le> 90 then char_of (n + 32) else c)"

definition lower :: "string \<Rightarrow> string" where
  "lower s = map lower_char s"

text \<open>\<open>os.path.join(a, b)\<close> on POSIX: an absolute second component discards the first.\<close>

definition os_path_join :: "string \<Rightarrow> string \<Rightarrow> string" where
  "os_path_join a b =
     (if b \<noteq> [] \<and> hd b = CHR ''/'' then b
      else if a = [] \<or> last a = CHR ''/'' then a @ b
      else a @ ''/'' @ b)"

text \<open>
  The file a path names: whether it is absolute, and its components after \<open>.\<close> and
  empty components are dropped and each \<open>..\<close> has removed the component before it. A
  relative path starts at the working directory of the process, where \<open>generated\<close>
  lives. Symbolic links are not modelled.
\<close>

fun norm_comps :: "bool \<Rightarrow> string list \<Rightarrow> string list \<Rightarrow> string list" where
  "norm_comps ab acc [] = acc"
| "norm_comps ab acc (c # cs) =
     (if c = [] \<or> c = ''.'' then norm_comps ab acc cs
      else if c = ''..'' then
        (if acc = [] then (if ab then norm_comps ab acc cs else norm_comps ab [c] cs)
         else if last acc = ''..'' then norm_comps ab (acc @ [c]) cs
         else norm_comps ab (butlast acc) cs)
      else norm_comps ab (acc @ [c]) cs)"

type_synonym path = "bool \<times> string list"

definition resolve :: "string \<Rightarrow> path" where
  "resolve p =
     (let ab = (p \<noteq> [] \<and> hd p = CHR ''/'') in (ab, norm_comps ab [] (split_fields CHR ''/'' p)))"

text \<open>
  A resolved path stays within the output directory when it is the directory or lies
  below it, and lies inside it when it is below it.
\<close>

definition within_outdir :: "path \<Rightarrow> bool" where
  "within_outdir q =
     (case q of (ab, comps) \<Rightarrow>
        \<not> ab \<and> (case comps of [] \<Rightarrow> False | d # rest \<Rightarrow> d = OUTDIR))"

definition inside_outdir :: "path \<Rightarrow> bool" where
  "inside_outdir q =
     (case q of (ab, comps) \<Rightarrow>
        \<not> ab \<and> (case comps of [] \<Rightarrow> False | d # rest \<Rightarrow> d = OUTDIR \<and> rest \<noteq> []))"

section \<open>Errors, images, documents and files\<close>

text \<open>The exceptions the code can meet; an uncaught one ends the request.\<close>

datatype error =
    RequestException
  | JSONDecodeError
  | AttributeError
  | UnidentifiedImageError
  | ZeroDivisionError
  | FileNotFoundError
  | IsADirectoryError

text \<open>A decoded picture: its mode, its size (width, height) and its pixels as RGBA.\<close>

type_synonym rgba = "nat \<times> nat \<times> nat \<times> nat"

record image =
  img_mode :: string
  img_size :: "nat \<times> nat"
  img_data :: "rgba list"

text \<open>\<open>Image.new(mode, size, color)\<close> and \<open>img.convert(mode)\<close>.\<close>

definition Image_new :: "string \<Rightarrow> nat \<times> nat \<Rightarrow> rgba \<Rightarrow> image" where
  "Image_new m sz color =
     \<lparr>img_mode = m, img_size = sz, img_data = replicate (fst sz * snd sz) color\<rparr>"

definition convert :: "image \<Rightarrow> string \<Rightarrow> image" where
  "convert img m = img\<lparr>img_mode := m\<rparr>"

text \<open>
  A PDF is what was drawn on the canvas: for each page the drawing operations in order,
  each with the arguments the code passed.
\<close>

type_synonym rect = "real \<times> real \<times> real \<times> real"

datatype pdf_op =
    DrawImage image real real real real bool string
  | LinkURL string rect nat

record pdf =
  pdf_pagesize :: "real \<times> real"
  pdf_pages :: "pdf_op list list"

record canvas =
  cv_filename :: string
  cv_pagesize :: "real \<times> real"
  cv_code :: "pdf_op list"
  cv_pages :: "pdf_op list list"

datatype node = Dir | PngFile image | PdfFile pdf | Blob string

type_synonym filesystem = "path \<rightharpoonup> node"

definition path_exists :: "filesystem \<Rightarrow> string \<Rightarrow> bool" where
  "path_exists fs p = (fs (resolve p) \<noteq> None)"

text \<open>
  Modelled from the spec: \<open>reportlab.lib.pagesizes.letter\<close> is not under src; US Letter
  is 612 by 792 points.
\<close>

definition letter :: "real \<times> real" where
  "letter = (612, 792)"

text \<open>The canvas operations the code calls, recording what they are given.\<close>

definition Canvas :: "string \<Rightarrow> real \<times> real \<Rightarrow> canvas" where
  "Canvas filename pagesize =
     \<lparr>cv_filename = filename, cv_pagesize = pagesize, cv_code = [], cv_pages = []\<rparr>"

definition drawImage ::
  "canvas \<Rightarrow> image \<Rightarrow> real \<Rightarrow> real \<Rightarrow> real \<Rightarrow> real \<Rightarrow> bool \<Rightarrow> string \<Rightarrow> canvas" where
  "drawImage c img x y w h preserveAspectRatio mask_mode =
     c\<lparr>cv_code := cv_code c @ [DrawImage img x y w h preserveAspectRatio mask_mode]\<rparr>"

definition linkURL :: "canvas \<Rightarrow> string \<Rightarrow> rect \<Rightarrow> nat \<Rightarrow> canvas" where
  "linkURL c url r relative = c\<lparr>cv_code := cv_code c @ [LinkURL url r relative]\<rparr>"

definition showPage :: "canvas \<Rightarrow> canvas" where
  "showPage c = c\<lparr>cv_code := [], cv_pages := cv_pages c @ [cv_code c]\<rparr>"

text \<open>\<open>save\<close> closes a page that still has content, then writes the file.\<close>

definition save :: "filesystem \<Rightarrow> canvas \<Rightarrow> filesystem" where
  "save fs c =
     (let c' = (if cv_code c \<noteq> [] then showPage c else c)
      in fs(resolve (cv_filename c') \<mapsto>
              PdfFile \<lparr>pdf_pagesize = cv_pagesize c', pdf_pages = cv_pages c'\<rparr>))"

text \<open>\<open>ImageReader(image_path)\<close> opens the picture stored at the path.\<close>

definition ImageReader :: "filesystem \<Rightarrow> string \<Rightarrow> error + image" where
  "ImageReader fs p =
     (case fs (resolve p) of
        None \<Rightarrow> Inl FileNotFoundError
      | Some Dir \<Rightarrow> Inl IsADirectoryError
      | Some (PngFile img) \<Rightarrow> Inr img
      | Some _ \<Rightarrow> Inl UnidentifiedImageError)"

section \<open>PDF helper\<close>

text \<open>
  \<open>create_pdf_with_clickable_image(image_path, pdf_path, page_size=letter, url=None)\<close>.
  The two divisions are Python true divisions: a zero width or height raises.
\<close>

definition create_pdf_with_clickable_image ::
  "filesystem \<Rightarrow> string \<Rightarrow> string \<Rightarrow> real \<times> real \<Rightarrow> string option \<Rightarrow> error + filesystem" where
  "create_pdf_with_clickable_image fs image_path pdf_path page_size url =
     (let c = Canvas pdf_path page_size;
          (width, height) = page_size
      in case ImageReader fs image_path of
           Inl e \<Rightarrow> Inl e
         | Inr img \<Rightarrow>
            (let (iw, ih) = img_size img;
                 margin = 36;
                 max_w = width - 2 * margin;
                 max_h = height - 2 * margin
             in if iw = 0 \<or> ih = 0 then Inl ZeroDivisionError
                else
                 (let scale = min (max_w / real iw) (max_h / real ih);
                      draw_w = real iw * scale;
                      draw_h = real ih * scale;
                      x = (width - draw_w) / 2;
                      y = (height - draw_h) / 2;
                      c1 = drawImage c img x y draw_w draw_h True ''auto'';
                      c2 = (case url of
                              None \<Rightarrow> c1
                            | Some u \<Rightarrow>
                                if u \<noteq> [] then linkURL c1 u (x, y, x + draw_w, y + draw_h) 0
                                else c1);
                      c3 = showPage c2
                  in Inr (save fs c3))))"

section \<open>Geolocation helper\<close>

text \<open>
  What \<open>requests.get(url, timeout=4).json()\<close> gives: an exception (no connection, a
  timeout, a body that is not JSON), or the parsed body. The service answers with a flat
  object of scalars, kept as the association list of the parsed dictionary; any other
  JSON value has no \<open>get\<close>.
\<close>

datatype json_body = JObject "(string \<times> scalar) list" | JOther

type_synonym geo = "scalar \<times> scalar \<times> scalar \<times> scalar \<times> scalar"

definition geo_url :: "string \<Rightarrow> string" where
  "geo_url ip =
     ''http://ip-api.com/json/'' @ ip @
     ''?fields=status,message,lat,lon,city,regionName,country''"

text \<open>\<open>r.get(k)\<close> on a dictionary: \<open>None\<close> for a missing key.\<close>

definition dict_get :: "(string \<times> scalar) list \<Rightarrow> string \<Rightarrow> scalar" where
  "dict_get kvs k = (case map_of kvs k of None \<Rightarrow> SNone | Some v \<Rightarrow> v)"

definition no_geo :: geo where
  "no_geo = (SNone, SNone, SNone, SNone, SNone)"

text \<open>
  The body of the \<open>try\<close> block: an exception raised inside it, a value returned from
  inside it, or neither (control leaves the block).
\<close>

definition geo_ip_try :: "(string \<Rightarrow> error + json_body) \<Rightarrow> string \<Rightarrow> error + geo option" where
  "geo_ip_try http_get ip =
     (case http_get (geo_url ip) of
        Inl e \<Rightarrow> Inl e
      | Inr JOther \<Rightarrow> Inl AttributeError
      | Inr (JObject r) \<Rightarrow>
          if dict_get r ''status'' = SStr ''success''
          then Inr (Some (dict_get r ''lat'', dict_get r ''lon'', dict_get r ''city'',
                          dict_get r ''regionName'', dict_get r ''country''))
          else Inr None)"

text \<open>\<open>geo_ip(ip)\<close>: the bare \<open>except: pass\<close> swallows whatever the block raised.\<close>

definition geo_ip :: "(string \<Rightarrow> error + json_body) \<Rightarrow> string \<Rightarrow> error + geo" where
  "geo_ip http_get ip =
     (case geo_ip_try http_get ip of
        Inl e \<Rightarrow> Inr no_geo
      | Inr (Some g) \<Rightarrow> Inr g
      | Inr None \<Rightarrow> Inr no_geo)"

section \<open>Requests, responses and the state of the application\<close>

record upload =
  u_filename :: string
  u_stream :: string

text \<open>
  A request as the handlers read it, once the framework has routed it to one of them (the
  rate limiter in front of the routes is the framework's and is not modelled). Header
  names are looked up as written in the source. The server always supplies the peer
  address. \<open>r_url_root\<close> is the scheme and host that \<open>url_for(..., _external=True)\<close>
  puts in front of a path.
\<close>

record request =
  r_method :: string
  r_headers :: "string \<rightharpoonup> string"
  r_remote_addr :: string
  r_form :: "string \<rightharpoonup> string"
  r_files :: "string \<rightharpoonup> upload"
  r_url_root :: string

text \<open>What a handler needs from outside the process while it runs.\<close>

record env =
  e_sqlite :: sqlite
  e_http_get :: "string \<Rightarrow> error + json_body"
  e_utcnow :: string
  e_uuid :: string
  e_pil_open :: "string \<Rightarrow> error + image"

text \<open>
  The state a handler can change: the hits table, the files, the keys the application
  keeps in the session, and the queue of flashed messages. The queue is the framework's
  (\<open>flash\<close> appends to it, rendering a page empties it); it is kept apart from the keys
  the application reads and writes.
\<close>

record world =
  w_db :: hits_db
  w_fs :: filesystem
  w_session :: "string \<rightharpoonup> scalar"
  w_flashes :: "(string \<times> string) list"

datatype ctx = CScalar scalar | CStr string | CRows "hit list"

datatype response =
    Redirect string
  | Rendered string "(string \<times> ctx) list"
  | Text string nat
  | FileResponse string node bool string string

type_synonym outcome = "(error + response) \<times> world"

text \<open>\<open>d.get(k, default)\<close> on the form, the headers and the session.\<close>

definition get_or :: "('k \<rightharpoonup> 'v) \<Rightarrow> 'k \<Rightarrow> 'v \<Rightarrow> 'v" where
  "get_or m k d = (case m k of None \<Rightarrow> d | Some v \<Rightarrow> v)"

definition session_get :: "world \<Rightarrow> string \<Rightarrow> scalar \<Rightarrow> scalar" where
  "session_get w k d = get_or (w_session w) k d"

text \<open>
  \<open>url_for\<close> for the routes of the application. The values put into a path here are
  made of letters, digits, \<open>_\<close> and \<open>.\<close>, which URL quoting leaves as they are.
\<close>

definition url_for_index :: string where
  "url_for_index = ''/''"

definition url_for_login :: string where
  "url_for_login = ''/login''"

definition url_for_make :: string where
  "url_for_make = ''/make''"

definition url_for_clickable_redirect :: "request \<Rightarrow> string \<Rightarrow> string" where
  "url_for_clickable_redirect req doc_ref = r_url_root req @ ''/click/'' @ doc_ref"

definition url_for_download_generated :: "request \<Rightarrow> string \<Rightarrow> string" where
  "url_for_download_generated req name = r_url_root req @ ''/download_generated/'' @ name"

definition url_for_dl_pdf :: "request \<Rightarrow> string \<Rightarrow> string \<Rightarrow> string" where
  "url_for_dl_pdf req doc_ref pdfname =
     r_url_root req @ ''/dl_pdf/'' @ doc_ref @ ''/'' @ pdfname"

text \<open>
  \<open>send_file(path, as_attachment=True, download_name=..., mimetype=...)\<close> opens the file
  and streams it; opening a directory fails. The response carries the path and what was
  opened. The framework takes a relative path from the application's root directory,
  which is taken here to be the working directory of the process.
\<close>

definition send_file :: "filesystem \<Rightarrow> string \<Rightarrow> bool \<Rightarrow> string \<Rightarrow> string \<Rightarrow> error + response" where
  "send_file fs p as_attachment download_name mimetype =
     (case fs (resolve p) of
        None \<Rightarrow> Inl FileNotFoundError
      | Some Dir \<Rightarrow> Inl IsADirectoryError
      | Some f \<Rightarrow> Inr (FileResponse p f as_attachment download_name mimetype))"

text \<open>
  \<open>request.headers.get("X-Forwarded-For", request.remote_addr).split(",")[0].strip()\<close>
\<close>

definition client_ip :: "request \<Rightarrow> string" where
  "client_ip req =
     strip (first_field CHR '','' (get_or (r_headers req) ''X-Forwarded-For'' (r_remote_addr req)))"

section \<open>Routes\<close>

definition index :: "world \<Rightarrow> outcome" where
  "index w =
     (Inr (Rendered ''index.html''
             [(''logged_in'', CScalar (session_get w ''admin'' (SBool False)))]), w)"

definition login :: "config \<Rightarrow> request \<Rightarrow> world \<Rightarrow> outcome" where
  "login cfg req w =
     (if r_method req = ''POST'' then
        (if get_or (r_form req) ''password'' [] = ADMIN_PASS cfg
         then (Inr (Redirect url_for_make),
               w\<lparr>w_session := (w_session w)(''admin'' \<mapsto> SBool True)\<rparr>)
         else (Inr (Rendered ''login.html'' []),
               w\<lparr>w_flashes := w_flashes w @ [(''error'', ''Wrong password'')]\<rparr>))
      else (Inr (Rendered ''login.html'' []), w))"

definition logout :: "world \<Rightarrow> outcome" where
  "logout w = (Inr (Redirect url_for_index), w\<lparr>w_session := Map.empty\<rparr>)"

text \<open>
  The picture \<open>make\<close> starts from:
  \<open>Image.open(file.stream).convert("RGBA") if file and file.filename else
  Image.new("RGBA",(800,600),(255,255,255,255))\<close>. An upload object is true exactly when
  its file name is not empty. The form field \<open>mode\<close> is read and never used.
\<close>

definition base_image_of :: "env \<Rightarrow> request \<Rightarrow> error + image" where
  "base_image_of ev req =
     (case r_files req ''image'' of
        None \<Rightarrow> Inr (Image_new ''RGBA'' (800, 600) (255, 255, 255, 255))
      | Some file \<Rightarrow>
          if u_filename file \<noteq> [] then
            (case e_pil_open ev (u_stream file) of
               Inl e \<Rightarrow> Inl e
             | Inr img \<Rightarrow> Inr (convert img ''RGBA''))
          else Inr (Image_new ''RGBA'' (800, 600) (255, 255, 255, 255)))"

definition make :: "env \<Rightarrow> request \<Rightarrow> world \<Rightarrow> outcome" where
  "make ev req w =
     (if \<not> truthy (session_get w ''admin'' SNone) then (Inr (Redirect url_for_login), w)
      else if r_method req = ''POST'' then
        (case base_image_of ev req of
           Inl e \<Rightarrow> (Inl e, w)
         | Inr base_image \<Rightarrow>
            (let doc_ref = take 8 (e_uuid ev);
                 fname = ''document_'' @ doc_ref @ ''.png'';
                 fpath = os_path_join OUTDIR fname;
                 fs1 = (w_fs w)(resolve fpath \<mapsto> PngFile base_image);
                 w1 = w\<lparr>w_fs := fs1\<rparr>;
                 url = url_for_clickable_redirect req doc_ref;
                 pdf_name = ''document_'' @ doc_ref @ ''.pdf'';
                 pdf_path = os_path_join OUTDIR pdf_name
             in case create_pdf_with_clickable_image fs1 fpath pdf_path letter (Some url) of
                  Inl e \<Rightarrow> (Inl e, w1)
                | Inr fs2 \<Rightarrow>
                    (Inr (Rendered ''made_file.html''
                       [(''doc_ref'', CStr doc_ref),
                        (''file_url'', CStr (url_for_download_generated req fname)),
                        (''file_kind'', CStr ''PNG''),
                        (''pdf_url'', CStr (url_for_download_generated req pdf_name)),
                        (''dl_pdf_url'', CStr (url_for_dl_pdf req doc_ref pdf_name))]),
                     w1\<lparr>w_fs := fs2\<rparr>)))
      else (Inr (Rendered ''make.html'' []), w))"

text \<open>
  The two handlers that record a hit. Both look the address up first and insert the row
  before anything else is decided.
\<close>

definition clickable_redirect :: "env \<Rightarrow> request \<Rightarrow> string \<Rightarrow> world \<Rightarrow> outcome" where
  "clickable_redirect ev req doc_ref w =
     (let ip = client_ip req;
          ua = get_or (r_headers req) ''User-Agent'' []
      in case geo_ip (e_http_get ev) ip of
           Inl e \<Rightarrow> (Inl e, w)
         | Inr (lat, lon, city, region, country) \<Rightarrow>
            (let user_id = session_get w ''user_id'' (SStr ''anonymous'');
                 w1 = w\<lparr>w_db := insert_hit (e_sqlite ev) (e_utcnow ev) (w_db w) doc_ref user_id
                                     ip ua lat lon city region country\<rparr>
             in (Inr (Redirect ''https://your-site.com/thank-you''), w1)))"

definition dl_pdf :: "env \<Rightarrow> request \<Rightarrow> string \<Rightarrow> string \<Rightarrow> world \<Rightarrow> outcome" where
  "dl_pdf ev req doc_ref pdfname w =
     (let ip = client_ip req;
          ua = get_or (r_headers req) ''User-Agent'' []
      in case geo_ip (e_http_get ev) ip of
           Inl e \<Rightarrow> (Inl e, w)
         | Inr (lat, lon, city, region, country) \<Rightarrow>
            (let user_id = session_get w ''user_id'' (SStr ''anonymous'');
                 w1 = w\<lparr>w_db := insert_hit (e_sqlite ev) (e_utcnow ev) (w_db w) doc_ref user_id
                                     ip ua lat lon city region country\<rparr>;
                 p = os_path_join OUTDIR pdfname
             in if \<not> path_exists (w_fs w1) p then (Inr (Text ''Not found'' 404), w1)
                else (send_file (w_fs w1) p True pdfname ''application/pdf'', w1)))"

definition mime_map :: "string \<rightharpoonup> string" where
  "mime_map =
     [''svg'' \<mapsto> ''image/svg+xml'', ''png'' \<mapsto> ''image/png'', ''pdf'' \<mapsto> ''application/pdf'']"

definition download_generated :: "string \<Rightarrow> world \<Rightarrow> outcome" where
  "download_generated name w =
     (let p = os_path_join OUTDIR name
      in if \<not> path_exists (w_fs w) p then (Inr (Text ''Not found'' 404), w)
         else
          (let ext = last_field CHR ''.'' (lower name)
           in (send_file (w_fs w) p True name
                 (get_or mime_map ext ''application/octet-stream''), w)))"

definition logs :: "world \<Rightarrow> outcome" where
  "logs w =
     (if \<not> truthy (session_get w ''admin'' SNone) then (Inr (Redirect url_for_login), w)
      else (Inr (Rendered ''logs.html'' [(''table_data'', CRows (fetch_hits (w_db w) default_limit))]),
            w))"

text \<open>
  The names the routes hand to the handlers: a \<open><name>\<close> segment of a URL rule matches
  any non-empty text without a slash.
\<close>

definition route_segment :: "string \<Rightarrow> bool" where
  "route_segment s = (s \<noteq> [] \<and> CHR ''/'' \<notin> set s)"

section \<open>Observations\<close>

text \<open>The pictures and the hyperlinks on a page, in drawing order.\<close>

fun images_drawn :: "pdf_op list \<Rightarrow> (image \<times> real \<times> real \<times> real \<times> real) list" where
  "images_drawn [] = []"
| "images_drawn (DrawImage img x y w h p m # ops) = (img, x, y, w, h) # images_drawn ops"
| "images_drawn (LinkURL u r rel # ops) = images_drawn ops"

fun links :: "pdf_op list \<Rightarrow> (string \<times> rect) list" where
  "links [] = []"
| "links (DrawImage img x y w h p m # ops) = links ops"
| "links (LinkURL u r rel # ops) = (u, r) # links ops"

text \<open>
  The page as the specification describes it (section 4.3, step 4), for comparison with
  what \<open>create_pdf_with_clickable_image\<close> draws: the picture scaled by
  \<open>min(max_width/image_width, max_height/image_height)\<close> inside a margin of 36 points
  on each side, centred, and one link over exactly its bounding box when a URL is given.
\<close>

definition spec_page :: "image \<Rightarrow> real \<times> real \<Rightarrow> string option \<Rightarrow> pdf_op list" where
  "spec_page img page_size url =
     (let (width, height) = page_size;
          (iw, ih) = img_size img;
          scale = min ((width - 72) / real iw) ((height - 72) / real ih);
          draw_w = real iw * scale;
          draw_h = real ih * scale;
          x = (width - draw_w) / 2;
          y = (height - draw_h) / 2
      in DrawImage img x y draw_w draw_h True ''auto'' #
         (case url of None \<Rightarrow> []
          | Some u \<Rightarrow> if u \<noteq> [] then [LinkURL u (x, y, x + draw_w, y + draw_h) 0] else []))"

text \<open>
  Modelled from the spec: \<open>shortuuid\<close> is not under src; the identifier it returns is
  URL-safe. These are the characters that URL quoting leaves unchanged.
\<close>

definition url_safe :: "char \<Rightarrow> bool" where
  "url_safe c =
     (let n = (of_char c :: nat)
      in (48 \<le> n \<and> n \<le> 57) \<or> (65 \<le> n \<and> n \<le> 90) \<or> (97 \<le> n \<and> n \<le> 122)
         \<or> c \<in> set ''-._~'')"

text \<open>
  The location a tracked access looks up (\<open>geo_ip\<close> never raises, so the second case
  is never taken), and the row that \<open>insert_hit\<close> stores for such an access.
\<close>

definition geo_of :: "env \<Rightarrow> request \<Rightarrow> geo" where
  "geo_of ev req =
     (case geo_ip (e_http_get ev) (client_ip req) of Inr g \<Rightarrow> g | Inl e \<Rightarrow> no_geo)"

definition hit_row :: "env \<Rightarrow> request \<Rightarrow> string \<Rightarrow> world \<Rightarrow> geo \<Rightarrow> hit" where
  "hit_row ev req doc_ref w g =
     (case g of (lat, lon, city, region, country) \<Rightarrow>
       \<lparr>h_id = next_rowid (w_db w), h_doc_ref = doc_ref,
        h_user_id = text_affinity (e_sqlite ev) (session_get w ''user_id'' (SStr ''anonymous'')),
        h_ip = client_ip req, h_ua = get_or (r_headers req) ''User-Agent'' [],
        h_ts = e_utcnow ev @ ''Z'',
        h_lat = real_affinity (e_sqlite ev) lat, h_lon = real_affinity (e_sqlite ev) lon,
        h_city = text_affinity (e_sqlite ev) city,
        h_region = text_affinity (e_sqlite ev) region,
        h_country = text_affinity (e_sqlite ev) country\<rparr>)"

section \<open>Example inputs\<close>

definition img_ex :: image where
  "img_ex = Image_new ''RGB'' (400, 300) (10, 20, 30, 255)"

definition pdf_ex :: pdf where
  "pdf_ex = \<lparr>pdf_pagesize = (612, 792), pdf_pages = [[]]\<rparr>"

text \<open>
  A working directory holding the application's source file and the output directory
  with one generated pair.
\<close>

definition fs_ex :: filesystem where
  "fs_ex =
     [(False, []) \<mapsto> Dir,
      (False, [''generated'']) \<mapsto> Dir,
      (False, [''app.py'']) \<mapsto> Blob ''import os'',
      (False, [''generated'', ''document_abc12345.png'']) \<mapsto> PngFile img_ex,
      (False, [''generated'', ''document_abc12345.pdf'']) \<mapsto> PdfFile pdf_ex]"

definition db_ex :: hits_db where
  "db_ex = \<lparr>db_rows = [], db_seq = 0\<rparr>"

text \<open>
  Conversions standing in for SQLite's; they agree with it on the values the examples
  store (the integer 7, no float and no text that denotes a number).
\<close>

definition sq_ex :: sqlite where
  "sq_ex =
     \<lparr>sq_text_of_int = (\<lambda>n. if n = 7 then ''7'' else []),
      sq_text_of_float = (\<lambda>x. []),
      sq_float_of_text = (\<lambda>s. None)\<rparr>"

definition call_ex :: "string \<Rightarrow> hit_call" where
  "call_ex d =
     \<lparr>c_utcnow = ''2024-05-01T12:00:00'', c_doc_ref = d, c_user_id = SStr ''anonymous'',
      c_ip = ''203.0.113.9'', c_ua = ''curl/8'', c_lat = SNone, c_lon = SNone, c_city = SNone,
      c_region = SNone, c_country = SNone\<rparr>"

text \<open>A call whose viewer identity and latitude are integers.\<close>

definition call_ill :: "string \<Rightarrow> hit_call" where
  "call_ill d = (call_ex d)\<lparr>c_user_id := SInt 7, c_lat := SInt 7\<rparr>"

definition w_ex :: world where
  "w_ex = \<lparr>w_db = db_ex, w_fs = fs_ex, w_session = Map.empty, w_flashes = []\<rparr>"

definition w_admin :: world where
  "w_admin = w_ex\<lparr>w_session := [''admin'' \<mapsto> SBool True]\<rparr>"

definition req_get :: request where
  "req_get =
     \<lparr>r_method = ''GET'',
      r_headers = [''X-Forwarded-For'' \<mapsto> ''203.0.113.9, 10.0.0.1'', ''User-Agent'' \<mapsto> ''curl/8''],
      r_remote_addr = ''10.0.0.1'', r_form = Map.empty, r_files = Map.empty,
      r_url_root = ''http://tracker.example''\<rparr>"

definition req_upload :: request where
  "req_upload =
     req_get\<lparr>r_method := ''POST'',
             r_files := [''image'' \<mapsto> \<lparr>u_filename = ''cat.png'', u_stream = ''PNGDATA''\<rparr>]\<rparr>"

definition req_corrupt :: request where
  "req_corrupt =
     req_get\<lparr>r_method := ''POST'',
             r_files := [''image'' \<mapsto> \<lparr>u_filename = ''cat.png'', u_stream = ''garbage''\<rparr>]\<rparr>"

definition req_no_upload :: request where
  "req_no_upload = req_get\<lparr>r_method := ''POST''\<rparr>"

definition req_bad_login :: request where
  "req_bad_login = req_get\<lparr>r_method := ''POST'', r_form := [''password'' \<mapsto> ''guess'']\<rparr>"

definition cfg_ex :: config where
  "cfg_ex = \<lparr>ADMIN_PASS = ''admin''\<rparr>"

text \<open>An environment in which the geolocation service cannot be reached.\<close>

definition ev_ex :: env where
  "ev_ex =
     \<lparr>e_sqlite = sq_ex,
      e_http_get = (\<lambda>u. Inl RequestException),
      e_utcnow = ''2024-05-01T12:00:00'',
      e_uuid = ''abc12345vytxeTZskVKR7C'',
      e_pil_open = (\<lambda>b. if b = ''PNGDATA'' then Inr img_ex else Inl UnidentifiedImageError)\<rparr>"

section \<open>The hit recorder\<close>

lemma insort_key_append_greater:
  "\<forall>y\<in>set ys. f x < f y \<Longrightarrow> insort_key f x (zs @ ys) = insort_key f x zs @ ys"
  for f :: "'a \<Rightarrow> nat"
proof (induction zs)
  case Nil
  then show ?case by (cases ys) auto
next
  case (Cons z zs)
  then show ?case by simp
qed

lemma foldr_insort_greater:
  "\<forall>x\<in>set xs. \<forall>y\<in>set ys. f x < f y \<Longrightarrow>
   foldr (insort_key f) xs ys = sort_key f xs @ ys"
  for f :: "'a \<Rightarrow> nat"
  by (induction xs) (simp_all add: sort_key_def insort_key_append_greater)

lemma sort_key_append_greater:
  fixes f :: "'a \<Rightarrow> nat"
  assumes "\<forall>x\<in>set xs. \<forall>y\<in>set ys. f x < f y" and "sorted (map f ys)"
  shows "sort_key f (xs @ ys) = sort_key f xs @ ys"
proof -
  have "sort_key f (xs @ ys) = foldr (insort_key f) xs (sort_key f ys)"
    by (simp add: sort_key_def)
  also have "\<dots> = foldr (insort_key f) xs ys"
    using assms(2) by (simp add: sort_key_id_if_sorted)
  also have "\<dots> = sort_key f xs @ ys"
    using assms(1) by (rule foldr_insort_greater)
  finally show ?thesis .
qed

lemma max_rowid_ge: "r \<in> set rs \<Longrightarrow> h_id r \<le> max_rowid rs"
  by (induction rs) (auto simp: max_rowid_def)

lemma max_rowid_append: "max_rowid (rs @ [r]) = max (max_rowid rs) (h_id r)"
  by (induction rs) (auto simp: max_rowid_def)

lemma old_rows_below_next: "r \<in> set (db_rows db) \<Longrightarrow> h_id r < next_rowid db"
  using max_rowid_ge [of r "db_rows db"] by (simp add: next_rowid_def)

lemma record_call_rows:
  "db_rows (record_call sq db c) =
     db_rows db @ [\<lparr>h_id = next_rowid db, h_doc_ref = c_doc_ref c,
       h_user_id = text_affinity sq (c_user_id c),
       h_ip = c_ip c, h_ua = c_ua c, h_ts = c_utcnow c @ ''Z'',
       h_lat = real_affinity sq (c_lat c), h_lon = real_affinity sq (c_lon c),
       h_city = text_affinity sq (c_city c), h_region = text_affinity sq (c_region c),
       h_country = text_affinity sq (c_country c)\<rparr>]"
  by (simp add: record_call_def insert_hit_def Let_def)

lemma record_call_next: "next_rowid db < next_rowid (record_call sq db c)"
  by (simp add: record_call_def insert_hit_def Let_def next_rowid_def max_rowid_append)

text \<open>
  Every row a sequence of calls appends carries a fresh identifier, larger than all before
  it, and the rows keep the order of the calls and hold their arguments as stored.
\<close>

lemma record_all_rows:
  "\<exists>news. db_rows (record_all sq db cs) = db_rows db @ news
     \<and> map call_of news = map (as_stored sq) cs
     \<and> sorted (map h_id news) \<and> (\<forall>r\<in>set news. next_rowid db \<le> h_id r)"
proof (induction cs arbitrary: db)
  case Nil
  show ?case by (simp add: record_all_def)
next
  case (Cons c cs)
  let ?db1 = "record_call sq db c"
  obtain r where r: "db_rows ?db1 = db_rows db @ [r]" "h_id r = next_rowid db"
      "call_of r = as_stored sq c"
    by (cases c) (simp add: record_call_rows call_of_def as_stored_def)
  from Cons.IH [of ?db1] obtain news where
    n: "db_rows (record_all sq ?db1 cs) = db_rows ?db1 @ news"
       "map call_of news = map (as_stored sq) cs"
       "sorted (map h_id news)" "\<forall>x\<in>set news. next_rowid ?db1 \<le> h_id x"
    by blast
  have lt: "\<forall>x\<in>set news. next_rowid db < h_id x"
    using n(4) record_call_next [of db sq c] by fastforce
  have "db_rows (record_all sq db (c # cs)) = db_rows db @ (r # news)"
    using n(1) r(1) by (simp add: record_all_def)
  moreover have "map call_of (r # news) = map (as_stored sq) (c # cs)"
    using n(2) r(3) by simp
  moreover have "sorted (map h_id (r # news))"
    using n(3) lt r(2) by (auto simp: less_imp_le)
  moreover have "\<forall>x\<in>set (r # news). next_rowid db \<le> h_id x"
    using lt r(2) by (auto simp: less_imp_le)
  ultimately show ?case by (intro exI [of _ "r # news"] conjI)
qed

text \<open>A value that has the type of its column is stored as it is.\<close>

lemma text_affinity_id: "is_text v \<Longrightarrow> text_affinity sq v = v"
  by (cases v) simp_all

lemma real_affinity_id: "is_real v \<Longrightarrow> real_affinity sq v = v"
  by (cases v) simp_all

lemma as_stored_well_typed: "well_typed c \<Longrightarrow> as_stored sq c = c"
  by (simp add: well_typed_def as_stored_def text_affinity_id real_affinity_id)

lemma fetch_hits_length:
  "length (fetch_hits db (int n)) = min n (length (db_rows db))"
  by (simp add: fetch_hits_def Let_def min.commute)

text \<open>
  Claim C4. Starting from any store, after \<open>insert_hit\<close> has been called once for each
  element of a list of calls, \<open>fetch_hits\<close> with the number of calls as limit returns
  exactly the rows those calls appended, newest first: the appended rows follow the old
  ones in the table, they hold the arguments of the calls in order (as SQLite stores
  them; unchanged when every value has the type of its column), and the result is their
  reversal. This holds for any document references, distinct or not, since recency is the
  order of the row identifiers. The read path caps the rows: with a limit of \<open>n\<close> rows
  it returns \<open>n\<close> rows, or all of them when the table has fewer. The limit defaults to
  1000: a call without a limit returns what a call with limit 1000 returns.
\<close>

theorem recent_after_records:
  "db_rows (record_all sq db cs) = db_rows db @ new_rows sq db cs
   \<and> map call_of (new_rows sq db cs) = map (as_stored sq) cs
   \<and> (list_all well_typed cs \<longrightarrow> map call_of (new_rows sq db cs) = cs)
   \<and> fetch_hits (record_all sq db cs) (int (length cs)) = rev (new_rows sq db cs)
   \<and> length (fetch_hits db (int n)) = min n (length (db_rows db))
   \<and> fetch_hits db default_limit = fetch_hits db 1000
   \<and> length (fetch_hits db default_limit) = min 1000 (length (db_rows db))"
proof -
  obtain news where
    n: "db_rows (record_all sq db cs) = db_rows db @ news"
       "map call_of news = map (as_stored sq) cs"
       "sorted (map h_id news)" "\<forall>r\<in>set news. next_rowid db \<le> h_id r"
    using record_all_rows [of sq db cs] by blast
  have nr: "new_rows sq db cs = news"
    by (simp add: new_rows_def n(1))
  have len: "length news = length cs"
    using n(2) by (metis length_map)
  have wt: "map call_of news = cs" if "list_all well_typed cs"
  proof -
    have "map (as_stored sq) cs = map (\<lambda>c. c) cs"
      using that by (intro map_cong refl) (simp add: list_all_iff as_stored_well_typed)
    then show ?thesis using n(2) by simp
  qed
  have sep: "\<forall>x\<in>set (db_rows db). \<forall>y\<in>set news. h_id x < h_id y"
    using n(4) old_rows_below_next [of _ db] by fastforce
  have "sort_key h_id (db_rows db @ news) = sort_key h_id (db_rows db) @ news"
    using sep n(3) by (rule sort_key_append_greater)
  then have f: "fetch_hits (record_all sq db cs) (int (length cs)) = rev news"
    by (simp add: fetch_hits_def Let_def n(1) len)
  have d: "fetch_hits db default_limit = fetch_hits db 1000"
    by (simp add: default_limit_def)
  have l: "length (fetch_hits db default_limit) = min 1000 (length (db_rows db))"
    using fetch_hits_length [of db 1000] by (simp add: d)
  show ?thesis
    using n(1,2) nr wt f d l fetch_hits_length [of db n] by simp
qed

theorem recent_after_records_witness:
  "list_all well_typed [call_ex ''docAAAAA'', call_ex ''docBBBBB'']
   \<and> fetch_hits (record_all sq_ex db_ex [call_ex ''docAAAAA'', call_ex ''docBBBBB'']) 2 =
       rev (new_rows sq_ex db_ex [call_ex ''docAAAAA'', call_ex ''docBBBBB''])
   \<and> map call_of (fetch_hits (record_all sq_ex db_ex [call_ex ''docAAAAA'', call_ex ''docBBBBB'']) 2)
        = [call_ex ''docBBBBB'', call_ex ''docAAAAA'']
   \<and> map h_id (fetch_hits (record_all sq_ex db_ex [call_ex ''docAAAAA'', call_ex ''docBBBBB'']) 2)
        = [2, 1]
   \<and> map h_user_id (new_rows sq_ex db_ex [call_ill ''docCCCCC'']) = [SStr ''7'']
   \<and> map h_lat (new_rows sq_ex db_ex [call_ill ''docCCCCC'']) = [SFloat 7]
   \<and> length (fetch_hits (record_all sq_ex db_ex [call_ex ''docAAAAA'', call_ex ''docBBBBB'']) 1) = 1"
proof -
  let ?cs = "[call_ex ''docAAAAA'', call_ex ''docBBBBB'']"
  have w: "list_all well_typed ?cs"
    by (simp add: well_typed_def call_ex_def)
  have i: "map h_id (fetch_hits (record_all sq_ex db_ex ?cs) 2) = [2, 1]"
    by (simp add: fetch_hits_def record_all_def record_call_def insert_hit_def db_ex_def
          call_ex_def next_rowid_def max_rowid_def)
  have u: "map h_user_id (new_rows sq_ex db_ex [call_ill ''docCCCCC'']) = [SStr ''7'']"
    and a: "map h_lat (new_rows sq_ex db_ex [call_ill ''docCCCCC'']) = [SFloat 7]"
    by (simp_all add: new_rows_def record_all_def record_call_def insert_hit_def db_ex_def
          call_ill_def call_ex_def sq_ex_def Let_def)
  note t = recent_after_records [of sq_ex db_ex ?cs 1]
  have c: "map call_of (new_rows sq_ex db_ex ?cs) = ?cs"
    using t w by blast
  have f: "fetch_hits (record_all sq_ex db_ex ?cs) 2 = rev (new_rows sq_ex db_ex ?cs)"
    using t by simp
  have len2: "length (db_rows (record_all sq_ex db_ex ?cs)) = 2"
    by (simp add: record_all_def record_call_def insert_hit_def db_ex_def Let_def)
  have l: "length (fetch_hits (record_all sq_ex db_ex ?cs) 1) = 1"
    using recent_after_records [of sq_ex "record_all sq_ex db_ex ?cs" "[]" 1] len2
    by simp
  show ?thesis
    using w i u a l f c by (simp add: rev_map [symmetric])
qed

section \<open>The geolocation resolver\<close>

lemma geo_ip_total: "\<exists>g. geo_ip http_get ip = Inr g"
  by (simp add: geo_ip_def geo_ip_try_def no_geo_def
        split: sum.splits json_body.splits option.splits)

lemma geo_of_eq: "geo_ip (e_http_get ev) (client_ip req) = Inr (geo_of ev req)"
  using geo_ip_total [of "e_http_get ev" "client_ip req"] by (auto simp: geo_of_def)

text \<open>
  Claim C3. For every address: if the lookup raises (any exception, a timeout among
  them), or its body is not an object, or the object's \<open>status\<close> is not the string
  \<open>success\<close>, then \<open>geo_ip\<close> returns five times \<open>None\<close>; and in every case it returns
  a tuple, it never raises.
\<close>

theorem geo_ip_failure_all_absent:
  "(http_get (geo_url ip) = Inl e \<longrightarrow>
      geo_ip http_get ip = Inr (SNone, SNone, SNone, SNone, SNone))
   \<and> (http_get (geo_url ip) = Inr JOther \<longrightarrow>
      geo_ip http_get ip = Inr (SNone, SNone, SNone, SNone, SNone))
   \<and> (http_get (geo_url ip) = Inr (JObject r) \<and> dict_get r ''status'' \<noteq> SStr ''success'' \<longrightarrow>
      geo_ip http_get ip = Inr (SNone, SNone, SNone, SNone, SNone))
   \<and> (\<exists>g. geo_ip http_get ip = Inr g)"
  by (simp add: geo_ip_def geo_ip_try_def no_geo_def
        split: sum.splits json_body.splits option.splits)

theorem geo_ip_failure_all_absent_witness:
  "geo_ip (\<lambda>u. Inl RequestException) ''203.0.113.9'' = Inr (SNone, SNone, SNone, SNone, SNone)
   \<and> geo_ip (\<lambda>u. Inr JOther) ''203.0.113.9'' = Inr (SNone, SNone, SNone, SNone, SNone)
   \<and> dict_get [(''status'', SStr ''fail''), (''message'', SStr ''reserved range'')] ''status''
        \<noteq> SStr ''success''
   \<and> geo_ip (\<lambda>u. Inr (JObject [(''status'', SStr ''fail''), (''message'', SStr ''reserved range'')]))
        ''203.0.113.9'' = Inr (SNone, SNone, SNone, SNone, SNone)"
  using geo_ip_failure_all_absent [of "\<lambda>u. Inl RequestException" "''203.0.113.9''" RequestException]
    geo_ip_failure_all_absent [of "\<lambda>u. Inr JOther" "''203.0.113.9''"]
    geo_ip_failure_all_absent [of "\<lambda>u. Inr (JObject [(''status'', SStr ''fail''), (''message'', SStr ''reserved range'')])"
       "''203.0.113.9''" _ "[(''status'', SStr ''fail''), (''message'', SStr ''reserved range'')]"]
  by (simp add: dict_get_def)

section \<open>Paths below the output directory\<close>

lemma split_on_no_delim: "d \<notin> set s \<Longrightarrow> split_on d s = (s, [])"
  by (induction s) auto

lemma split_on_delim:
  "d \<notin> set s \<Longrightarrow> split_on d (s @ d # t) = (s, fst (split_on d t) # snd (split_on d t))"
  by (induction s) (auto split: prod.splits)

lemma fields_prefix: "d \<notin> set s \<Longrightarrow> split_fields d (s @ d # t) = s # split_fields d t"
  by (simp add: split_fields_def split_on_delim split: prod.splits)

lemma fields_no_delim: "d \<notin> set s \<Longrightarrow> split_fields d s = [s]"
  by (simp add: split_fields_def split_on_no_delim)

lemma os_path_join_OUTDIR:
  "CHR ''/'' \<notin> set name \<Longrightarrow> os_path_join OUTDIR name = ''generated/'' @ name"
  by (cases name) (auto simp: os_path_join_def OUTDIR_def)

lemma fields_OUTDIR:
  "CHR ''/'' \<notin> set name \<Longrightarrow>
   split_fields CHR ''/'' (''generated/'' @ name) = [''generated'', name]"
  using fields_prefix [of "CHR ''/''" "''generated''" name]
  by (simp add: fields_no_delim)

text \<open>Where a name without a slash leads: only \<open>.\<close> and \<open>..\<close> leave the directory's files.\<close>

lemma resolve_OUTDIR:
  assumes "CHR ''/'' \<notin> set name"
  shows "resolve (os_path_join OUTDIR name) =
           (False, if name = [] \<or> name = ''.'' then [OUTDIR]
                   else if name = ''..'' then [] else [OUTDIR, name])"
proof -
  have "resolve (''generated/'' @ name) =
          (False, norm_comps False [] [''generated'', name])"
    unfolding resolve_def fields_OUTDIR [OF assms] by simp
  then show ?thesis
    unfolding os_path_join_OUTDIR [OF assms] by (simp add: OUTDIR_def)
qed

lemma split_on_append:
  "d \<notin> set t \<Longrightarrow>
   split_on d (s @ t) =
     (case split_on d s of (w, ws) \<Rightarrow>
        if ws = [] then (w @ t, []) else (w, butlast ws @ [last ws @ t]))"
  by (induction s) (auto simp: split_on_no_delim split: prod.splits)

lemma fields_append:
  "d \<notin> set t \<Longrightarrow>
   split_fields d (s @ t) = butlast (split_fields d s) @ [last (split_fields d s) @ t]"
  by (simp add: split_fields_def split_on_append split: prod.splits)

lemma norm_comps_snoc:
  assumes "c \<noteq> []" "c \<noteq> ''.''" "c \<noteq> ''..''"
  shows "norm_comps ab acc (cs @ [c]) = norm_comps ab acc cs @ [c]"
proof -
  have t: "norm_comps True acc (cs @ [c]) = norm_comps True acc cs @ [c]" for acc
    using assms by (induction cs arbitrary: acc) simp_all
  have f: "norm_comps False acc (cs @ [c]) = norm_comps False acc cs @ [c]" for acc
    using assms by (induction cs arbitrary: acc) simp_all
  show ?thesis
    using t f by (cases ab) simp_all
qed

lemma resolve_ext:
  assumes "CHR ''/'' \<notin> set t" "length t > 2" "p \<noteq> []"
  shows "resolve (p @ t) =
           (hd p = CHR ''/'',
            norm_comps (hd p = CHR ''/'') [] (butlast (split_fields CHR ''/'' p))
              @ [last (split_fields CHR ''/'' p) @ t])"
proof -
  let ?c = "last (split_fields CHR ''/'' p) @ t"
  have "length ?c > 2" using assms(2) by simp
  then have "?c \<noteq> []" "?c \<noteq> ''.''" "?c \<noteq> ''..''"
    by (auto dest: arg_cong [of _ _ length])
  then show ?thesis
    using assms(1,3) by (simp add: resolve_def fields_append norm_comps_snoc Let_def)
qed

text \<open>Whatever the identifier, the picture and the PDF of a pair are two different files.\<close>

lemma png_pdf_paths_differ:
  "resolve (os_path_join OUTDIR (''document_'' @ d @ ''.png''))
     \<noteq> resolve (os_path_join OUTDIR (''document_'' @ d @ ''.pdf''))"
proof -
  let ?p = "''generated/document_'' @ d"
  have j: "os_path_join OUTDIR (''document_'' @ d @ e) = ?p @ e" for e
    by (simp add: os_path_join_def OUTDIR_def)
  have "resolve (?p @ ''.png'') \<noteq> resolve (?p @ ''.pdf'')"
    using resolve_ext [of "''.png''" ?p] resolve_ext [of "''.pdf''" ?p] by simp
  then show ?thesis unfolding j .
qed

section \<open>The document generator\<close>

text \<open>
  For a readable picture of positive width and height the helper succeeds and writes a
  single page, the one the specification describes.
\<close>

lemma create_pdf_ok:
  assumes "ImageReader fs image_path = Inr img" "0 < fst (img_size img)" "0 < snd (img_size img)"
  shows "create_pdf_with_clickable_image fs image_path pdf_path page_size url =
           Inr (fs(resolve pdf_path \<mapsto>
                  PdfFile \<lparr>pdf_pagesize = page_size, pdf_pages = [spec_page img page_size url]\<rparr>))"
  using assms
  by (cases page_size; cases "img_size img"; cases url)
     (simp_all add: create_pdf_with_clickable_image_def spec_page_def Let_def Canvas_def
        drawImage_def linkURL_def showPage_def save_def)

lemma fit_geometry:
  fixes iw ih :: real
  assumes "0 < iw" "0 < ih" "0 < a" "0 < b"
  defines "s \<equiv> min (a / iw) (b / ih)"
  shows "iw * s \<le> a" "ih * s \<le> b" "iw * s = a \<or> ih * s = b" "0 < s"
proof -
  have 1: "s \<le> a / iw" and 2: "s \<le> b / ih" by (simp_all add: s_def)
  show "iw * s \<le> a"
    using 1 assms(1) by (simp add: pos_le_divide_eq mult.commute)
  show "ih * s \<le> b"
    using 2 assms(2) by (simp add: pos_le_divide_eq mult.commute)
  show "iw * s = a \<or> ih * s = b"
    using assms(1,2) by (auto simp: s_def min_def)
  show "0 < s"
    using assms by (simp add: s_def)
qed

text \<open>The helper succeeds in no other case.\<close>

lemma create_pdf_only_if:
  assumes "create_pdf_with_clickable_image fs image_path pdf_path page_size url = Inr fs'"
  shows "\<exists>img. ImageReader fs image_path = Inr img
           \<and> 0 < fst (img_size img) \<and> 0 < snd (img_size img)"
proof (cases "ImageReader fs image_path")
  case (Inl e)
  with assms show ?thesis
    by (cases page_size) (simp add: create_pdf_with_clickable_image_def Let_def)
next
  case (Inr img)
  with assms show ?thesis
    by (cases page_size; cases "img_size img")
       (auto simp: create_pdf_with_clickable_image_def Let_def split: if_splits)
qed

text \<open>
  Claim C5. For a stored picture of width \<open>iw\<close> and height \<open>ih\<close>, both positive, the
  helper called with the default page size succeeds and writes a PDF of US Letter size
  (612 by 792 points) with exactly one page. On it the picture is drawn once, with width
  \<open>iw * s\<close> and height \<open>ih * s\<close> for \<open>s = min((612-72)/iw, (792-72)/ih)\<close>, at
  \<open>x = (612 - width)/2\<close> and \<open>y = (792 - height)/2\<close>. So it keeps at least 36 points
  to every edge of the page, touches the margin in one direction, keeps its aspect ratio,
  and has equal space left and right, and above and below. Lengths are exact reals.
\<close>

theorem pdf_image_scaled_and_centred:
  assumes "ImageReader fs image_path = Inr img" and "img_size img = (iw, ih)"
    and "0 < iw" and "0 < ih"
  shows "\<exists>fs' page.
           create_pdf_with_clickable_image fs image_path pdf_path letter url = Inr fs'
         \<and> fs' (resolve pdf_path) =
              Some (PdfFile \<lparr>pdf_pagesize = (612, 792), pdf_pages = [page]\<rparr>)
         \<and> (let s = min ((612 - 72) / real iw) ((792 - 72) / real ih);
                 dw = real iw * s; dh = real ih * s;
                 x = (612 - dw) / 2; y = (792 - dh) / 2
             in images_drawn page = [(img, x, y, dw, dh)]
              \<and> 36 \<le> x \<and> x + dw \<le> 612 - 36 \<and> 36 \<le> y \<and> y + dh \<le> 792 - 36
              \<and> (dw = 612 - 72 \<or> dh = 792 - 72)
              \<and> dw * real ih = dh * real iw
              \<and> x = 612 - (x + dw) \<and> y = 792 - (y + dh))"
proof -
  let ?s = "min (540 / real iw) (720 / real ih)"
  let ?page = "spec_page img letter url"
  let ?fs = "fs(resolve pdf_path \<mapsto> PdfFile \<lparr>pdf_pagesize = letter, pdf_pages = [?page]\<rparr>)"
  have pos: "0 < fst (img_size img)" "0 < snd (img_size img)"
    using assms(2-4) by simp_all
  have c: "create_pdf_with_clickable_image fs image_path pdf_path letter url = Inr ?fs"
    using assms(1) pos by (rule create_pdf_ok)
  have g: "real iw * ?s \<le> 540" "real ih * ?s \<le> 720"
      "real iw * ?s = 540 \<or> real ih * ?s = 720"
    using fit_geometry [of "real iw" "real ih" 540 720] assms(3,4) by simp_all
  have d: "images_drawn ?page =
             [(img, (612 - real iw * ?s) / 2, (792 - real ih * ?s) / 2, real iw * ?s, real ih * ?s)]"
    using assms(2) by (cases url) (simp_all add: spec_page_def letter_def Let_def)
  define dw where "dw = real iw * ?s"
  define dh where "dh = real ih * ?s"
  have b: "dw \<le> 540" "dh \<le> 720" "dw = 540 \<or> dh = 720"
    using g by (simp_all add: dw_def dh_def)
  have m: "36 \<le> (612 - dw) / 2" "(612 - dw) / 2 + dw \<le> 576"
      "36 \<le> (792 - dh) / 2" "(792 - dh) / 2 + dh \<le> 756"
      "(612 - dw) / 2 = 612 - ((612 - dw) / 2 + dw)"
      "(792 - dh) / 2 = 792 - ((792 - dh) / 2 + dh)"
    using b(1,2) by (simp_all add: field_simps)
  have a: "dw * real ih = dh * real iw"
    by (simp add: dw_def dh_def)
  have "create_pdf_with_clickable_image fs image_path pdf_path letter url = Inr ?fs
         \<and> ?fs (resolve pdf_path) =
              Some (PdfFile \<lparr>pdf_pagesize = (612, 792), pdf_pages = [?page]\<rparr>)
         \<and> images_drawn ?page = [(img, (612 - dw) / 2, (792 - dh) / 2, dw, dh)]
         \<and> 36 \<le> (612 - dw) / 2 \<and> (612 - dw) / 2 + dw \<le> 612 - 36
         \<and> 36 \<le> (792 - dh) / 2 \<and> (792 - dh) / 2 + dh \<le> 792 - 36
         \<and> (dw = 612 - 72 \<or> dh = 792 - 72)
         \<and> dw * real ih = dh * real iw
         \<and> (612 - dw) / 2 = 612 - ((612 - dw) / 2 + dw)
         \<and> (792 - dh) / 2 = 792 - ((792 - dh) / 2 + dh)"
    using c d b(3) m a by (simp add: letter_def dw_def dh_def)
  then have "\<exists>fs' page. create_pdf_with_clickable_image fs image_path pdf_path letter url = Inr fs'
         \<and> fs' (resolve pdf_path) =
              Some (PdfFile \<lparr>pdf_pagesize = (612, 792), pdf_pages = [page]\<rparr>)
         \<and> images_drawn page = [(img, (612 - dw) / 2, (792 - dh) / 2, dw, dh)]
         \<and> 36 \<le> (612 - dw) / 2 \<and> (612 - dw) / 2 + dw \<le> 612 - 36
         \<and> 36 \<le> (792 - dh) / 2 \<and> (792 - dh) / 2 + dh \<le> 792 - 36
         \<and> (dw = 612 - 72 \<or> dh = 792 - 72)
         \<and> dw * real ih = dh * real iw
         \<and> (612 - dw) / 2 = 612 - ((612 - dw) / 2 + dw)
         \<and> (792 - dh) / 2 = 792 - ((792 - dh) / 2 + dh)"
    by blast
  then show ?thesis
    unfolding Let_def dw_def dh_def by simp
qed

theorem pdf_image_scaled_and_centred_witness:
  "ImageReader fs_ex ''generated/document_abc12345.png'' = Inr img_ex
   \<and> img_size img_ex = (400, 300)
   \<and> (\<exists>fs' page.
         create_pdf_with_clickable_image fs_ex ''generated/document_abc12345.png''
           ''generated/document_abc12345.pdf'' letter None = Inr fs'
       \<and> fs' (resolve ''generated/document_abc12345.pdf'') =
            Some (PdfFile \<lparr>pdf_pagesize = (612, 792), pdf_pages = [page]\<rparr>)
       \<and> images_drawn page = [(img_ex, 36, 387 / 2, 540, 405)])"
proof -
  have r: "ImageReader fs_ex ''generated/document_abc12345.png'' = Inr img_ex"
    by (simp add: ImageReader_def fs_ex_def resolve_def split_fields_def)
  have s: "img_size img_ex = (400, 300)"
    by (simp add: img_ex_def Image_new_def)
  show ?thesis
    using r s pdf_image_scaled_and_centred [OF r s, of "''generated/document_abc12345.pdf''" None]
    by (simp add: Let_def)
qed

text \<open>
  A \<open>POST\<close> to \<open>make\<close> by the operator, with a picture of positive size to start
  from, succeeds: it stores the picture and then the PDF built from it.
\<close>

lemma make_post_ok:
  assumes "truthy (session_get w ''admin'' SNone)" and "r_method req = ''POST''"
    and "base_image_of ev req = Inr img"
    and "0 < fst (img_size img)" and "0 < snd (img_size img)"
  shows "\<exists>resp.
      make ev req w =
        (Inr resp,
         w\<lparr>w_fs := (w_fs w)
            (resolve (os_path_join OUTDIR (''document_'' @ take 8 (e_uuid ev) @ ''.png''))
               \<mapsto> PngFile img,
             resolve (os_path_join OUTDIR (''document_'' @ take 8 (e_uuid ev) @ ''.pdf''))
               \<mapsto> PdfFile \<lparr>pdf_pagesize = letter,
                     pdf_pages = [spec_page img letter
                       (Some (url_for_clickable_redirect req (take 8 (e_uuid ev))))]\<rparr>)\<rparr>)"
proof -
  let ?d = "take 8 (e_uuid ev)"
  let ?png = "os_path_join OUTDIR (''document_'' @ ?d @ ''.png'')"
  let ?pdf = "os_path_join OUTDIR (''document_'' @ ?d @ ''.pdf'')"
  let ?fs1 = "(w_fs w)(resolve ?png \<mapsto> PngFile img)"
  have r: "ImageReader ?fs1 ?png = Inr img"
    by (simp add: ImageReader_def)
  have c: "create_pdf_with_clickable_image ?fs1 ?png ?pdf letter
             (Some (url_for_clickable_redirect req ?d)) =
           Inr (?fs1(resolve ?pdf \<mapsto> PdfFile \<lparr>pdf_pagesize = letter,
                  pdf_pages = [spec_page img letter (Some (url_for_clickable_redirect req ?d))]\<rparr>))"
    using r assms(4,5) by (rule create_pdf_ok)
  show ?thesis
    using assms(1-3) c by (simp add: make_def Let_def)
qed

text \<open>And \<open>make\<close> generates a document in no other case.\<close>

lemma make_generated_only_if:
  assumes "make ev req w = (Inr (Rendered ''made_file.html'' ctx), w')"
  shows "truthy (session_get w ''admin'' SNone) \<and> r_method req = ''POST''
       \<and> (\<exists>img. base_image_of ev req = Inr img
             \<and> 0 < fst (img_size img) \<and> 0 < snd (img_size img))"
proof -
  have a: "truthy (session_get w ''admin'' SNone)"
    using assms by (auto simp: make_def split: if_splits)
  have p: "r_method req = ''POST''"
    using assms a by (auto simp: make_def split: if_splits)
  obtain img where b: "base_image_of ev req = Inr img"
    using assms a p by (cases "base_image_of ev req") (auto simp: make_def)
  let ?d = "take 8 (e_uuid ev)"
  let ?png = "os_path_join OUTDIR (''document_'' @ ?d @ ''.png'')"
  let ?fs1 = "(w_fs w)(resolve ?png \<mapsto> PngFile img)"
  obtain fs2 where "create_pdf_with_clickable_image ?fs1 ?png
      (os_path_join OUTDIR (''document_'' @ ?d @ ''.pdf'')) letter
      (Some (url_for_clickable_redirect req ?d)) = Inr fs2"
    using assms a p b by (auto simp: make_def Let_def split: sum.splits)
  from create_pdf_only_if [OF this]
  have "0 < fst (img_size img) \<and> 0 < snd (img_size img)"
    by (simp add: ImageReader_def)
  with a p b show ?thesis by blast
qed

text \<open>
  Claim C6. Whenever \<open>make\<close> generates a document (the operator posts, the picture it
  starts from has positive width \<open>iw\<close> and height \<open>ih\<close>, and the identifier is
  URL-safe), the PDF it stores under \<open>document_<id>.pdf\<close> has one page with the picture
  drawn once, at \<open>(x, y)\<close> with size \<open>dw\<close> by \<open>dh\<close>, and exactly one hyperlink. The
  link's rectangle is \<open>(x, y, x + dw, y + dh)\<close>, the bounding box of the drawn picture,
  and its target is the external URL of \<open>/click/<id>\<close>, which contains the
  identifier.
\<close>

theorem make_pdf_has_one_link_over_image:
  assumes "truthy (session_get w ''admin'' SNone)" and "r_method req = ''POST''"
    and "base_image_of ev req = Inr img" and "img_size img = (iw, ih)"
    and "0 < iw" and "0 < ih"
    and "\<forall>c\<in>set (e_uuid ev). url_safe c"
  shows "\<exists>resp w' page.
           make ev req w = (Inr resp, w')
         \<and> w_fs w' (resolve (os_path_join OUTDIR (''document_'' @ take 8 (e_uuid ev) @ ''.pdf'')))
             = Some (PdfFile \<lparr>pdf_pagesize = (612, 792), pdf_pages = [page]\<rparr>)
         \<and> (let s = min ((612 - 72) / real iw) ((792 - 72) / real ih);
                 dw = real iw * s; dh = real ih * s;
                 x = (612 - dw) / 2; y = (792 - dh) / 2;
                 url = r_url_root req @ ''/click/'' @ take 8 (e_uuid ev)
             in images_drawn page = [(img, x, y, dw, dh)]
              \<and> links page = [(url, (x, y, x + dw, y + dh))]
              \<and> sublist (take 8 (e_uuid ev)) url)"
proof -
  let ?d = "take 8 (e_uuid ev)"
  let ?url = "url_for_clickable_redirect req ?d"
  let ?page = "spec_page img letter (Some ?url)"
  let ?s = "min (540 / real iw) (720 / real ih)"
  have pos: "0 < fst (img_size img)" "0 < snd (img_size img)"
    using assms(4-6) by simp_all
  obtain resp where m: "make ev req w =
        (Inr resp,
         w\<lparr>w_fs := (w_fs w)
            (resolve (os_path_join OUTDIR (''document_'' @ ?d @ ''.png'')) \<mapsto> PngFile img,
             resolve (os_path_join OUTDIR (''document_'' @ ?d @ ''.pdf''))
               \<mapsto> PdfFile \<lparr>pdf_pagesize = letter, pdf_pages = [?page]\<rparr>)\<rparr>)"
    using make_post_ok [OF assms(1-3) pos] by blast
  have u: "?url = r_url_root req @ ''/click/'' @ ?d"
    by (simp add: url_for_clickable_redirect_def)
  have ne: "?url \<noteq> []"
    by (simp add: url_for_clickable_redirect_def)
  have d: "images_drawn ?page =
             [(img, (612 - real iw * ?s) / 2, (792 - real ih * ?s) / 2, real iw * ?s, real ih * ?s)]"
    using assms(4) ne by (simp add: spec_page_def letter_def Let_def)
  have l: "links ?page =
             [(?url, ((612 - real iw * ?s) / 2, (792 - real ih * ?s) / 2,
                      (612 - real iw * ?s) / 2 + real iw * ?s,
                      (792 - real ih * ?s) / 2 + real ih * ?s))]"
    using assms(4) ne by (simp add: spec_page_def letter_def Let_def)
  have sub: "sublist ?d (r_url_root req @ ''/click/'' @ ?d)"
    unfolding sublist_def by (rule exI [of _ "r_url_root req @ ''/click/''"], rule exI [of _ "[]"]) simp
  show ?thesis
    apply (rule exI [of _ resp])
    apply (rule exI [of _ "snd (make ev req w)"])
    apply (rule exI [of _ ?page])
    using m d l sub u by (simp add: letter_def Let_def)
qed

theorem make_pdf_has_one_link_over_image_witness:
  "truthy (session_get w_admin ''admin'' SNone) \<and> r_method req_upload = ''POST''
   \<and> base_image_of ev_ex req_upload = Inr (convert img_ex ''RGBA'')
   \<and> list_all url_safe (e_uuid ev_ex)
   \<and> (\<exists>resp w' page.
         make ev_ex req_upload w_admin = (Inr resp, w')
       \<and> w_fs w' (resolve ''generated/document_abc12345.pdf'') =
            Some (PdfFile \<lparr>pdf_pagesize = (612, 792), pdf_pages = [page]\<rparr>)
       \<and> images_drawn page = [(convert img_ex ''RGBA'', 36, 387 / 2, 540, 405)]
       \<and> links page = [(''http://tracker.example/click/abc12345'', (36, 387 / 2, 576, 1197 / 2))]
       \<and> sublist ''abc12345'' ''http://tracker.example/click/abc12345'')"
proof -
  have a: "truthy (session_get w_admin ''admin'' SNone)"
    by (simp add: w_admin_def session_get_def get_or_def)
  have p: "r_method req_upload = ''POST''"
    by (simp add: req_upload_def)
  have b: "base_image_of ev_ex req_upload = Inr (convert img_ex ''RGBA'')"
    by (simp add: base_image_of_def ev_ex_def req_upload_def)
  have s: "img_size (convert img_ex ''RGBA'') = (400, 300)"
    by (simp add: convert_def img_ex_def Image_new_def)
  have u: "\<forall>c\<in>set (e_uuid ev_ex). url_safe c"
    by (simp add: ev_ex_def url_safe_def)
  have j: "os_path_join OUTDIR (''document_'' @ take 8 (e_uuid ev_ex) @ ''.pdf'')
             = ''generated/document_abc12345.pdf''"
    by (simp add: os_path_join_def OUTDIR_def ev_ex_def)
  have t: "r_url_root req_upload @ ''/click/'' @ take 8 (e_uuid ev_ex)
             = ''http://tracker.example/click/abc12345''"
    by (simp add: req_upload_def req_get_def ev_ex_def)
  have k: "take 8 (e_uuid ev_ex) = ''abc12345''"
    by (simp add: ev_ex_def)
  show ?thesis
    using a p b u make_pdf_has_one_link_over_image [OF a p b s _ _ u, unfolded j t]
    by (simp add: Let_def k list_all_iff)
qed

text \<open>
  Claim C7. In a \<open>POST\<close> to \<open>make\<close> by the operator: if no picture is supplied (no
  \<open>image\<close> part, or one with an empty file name), the request succeeds and the stored
  PNG is the 800 by 600 canvas in mode RGBA, every pixel white and fully opaque; if a
  picture is supplied and decoding it raises, that error is the outcome of the request and
  nothing is stored.
\<close>

theorem make_blank_canvas_or_decode_error:
  assumes "truthy (session_get w ''admin'' SNone)" and "r_method req = ''POST''"
  shows "(r_files req ''image'' = None
            \<or> (\<exists>f. r_files req ''image'' = Some f \<and> u_filename f = []) \<longrightarrow>
          (\<exists>resp w'. make ev req w = (Inr resp, w')
             \<and> w_fs w' (resolve (os_path_join OUTDIR (''document_'' @ take 8 (e_uuid ev) @ ''.png'')))
                 = Some (PngFile \<lparr>img_mode = ''RGBA'', img_size = (800, 600),
                           img_data = replicate (800 * 600) (255, 255, 255, 255)\<rparr>)))
       \<and> (\<forall>f e. r_files req ''image'' = Some f \<and> u_filename f \<noteq> []
                 \<and> e_pil_open ev (u_stream f) = Inl e \<longrightarrow>
            make ev req w = (Inl e, w))"
proof (intro conjI impI allI)
  let ?blank = "\<lparr>img_mode = ''RGBA'', img_size = (800, 600),
                  img_data = replicate (800 * 600) (255, 255, 255, 255)\<rparr>"
  assume "r_files req ''image'' = None \<or> (\<exists>f. r_files req ''image'' = Some f \<and> u_filename f = [])"
  then have b: "base_image_of ev req = Inr ?blank"
    by (auto simp: base_image_of_def Image_new_def)
  have pos: "0 < fst (img_size ?blank)" "0 < snd (img_size ?blank)"
    by simp_all
  obtain resp where m: "make ev req w =
        (Inr resp,
         w\<lparr>w_fs := (w_fs w)
            (resolve (os_path_join OUTDIR (''document_'' @ take 8 (e_uuid ev) @ ''.png''))
               \<mapsto> PngFile ?blank,
             resolve (os_path_join OUTDIR (''document_'' @ take 8 (e_uuid ev) @ ''.pdf''))
               \<mapsto> PdfFile \<lparr>pdf_pagesize = letter,
                     pdf_pages = [spec_page ?blank letter
                       (Some (url_for_clickable_redirect req (take 8 (e_uuid ev))))]\<rparr>)\<rparr>)"
    using make_post_ok [OF assms b pos] by blast
  show "\<exists>resp w'. make ev req w = (Inr resp, w')
             \<and> w_fs w' (resolve (os_path_join OUTDIR (''document_'' @ take 8 (e_uuid ev) @ ''.png'')))
                 = Some (PngFile ?blank)"
    using m png_pdf_paths_differ [of "take 8 (e_uuid ev)"] by simp
next
  fix f e
  assume "r_files req ''image'' = Some f \<and> u_filename f \<noteq> [] \<and> e_pil_open ev (u_stream f) = Inl e"
  then have "base_image_of ev req = Inl e"
    by (simp add: base_image_of_def)
  then show "make ev req w = (Inl e, w)"
    using assms by (simp add: make_def)
qed

theorem make_blank_canvas_or_decode_error_witness:
  "truthy (session_get w_admin ''admin'' SNone)
   \<and> r_method req_no_upload = ''POST'' \<and> r_files req_no_upload ''image'' = None
   \<and> (\<exists>resp w'. make ev_ex req_no_upload w_admin = (Inr resp, w')
         \<and> w_fs w' (resolve ''generated/document_abc12345.png'') =
             Some (PngFile \<lparr>img_mode = ''RGBA'', img_size = (800, 600),
                     img_data = replicate (800 * 600) (255, 255, 255, 255)\<rparr>))
   \<and> r_method req_corrupt = ''POST''
   \<and> r_files req_corrupt ''image'' = Some \<lparr>u_filename = ''cat.png'', u_stream = ''garbage''\<rparr>
   \<and> e_pil_open ev_ex ''garbage'' = Inl UnidentifiedImageError
   \<and> make ev_ex req_corrupt w_admin = (Inl UnidentifiedImageError, w_admin)"
proof -
  have a: "truthy (session_get w_admin ''admin'' SNone)"
    by (simp add: w_admin_def session_get_def get_or_def)
  have p1: "r_method req_no_upload = ''POST''" and n: "r_files req_no_upload ''image'' = None"
    by (simp_all add: req_no_upload_def req_get_def)
  have p2: "r_method req_corrupt = ''POST''"
    and c: "r_files req_corrupt ''image'' = Some \<lparr>u_filename = ''cat.png'', u_stream = ''garbage''\<rparr>"
    by (simp_all add: req_corrupt_def)
  have o: "e_pil_open ev_ex ''garbage'' = Inl UnidentifiedImageError"
    by (simp add: ev_ex_def)
  have j: "os_path_join OUTDIR (''document_'' @ take 8 (e_uuid ev_ex) @ ''.png'')
             = ''generated/document_abc12345.png''"
    by (simp add: os_path_join_def OUTDIR_def ev_ex_def)
  show ?thesis
    using a p1 n p2 c o
      make_blank_canvas_or_decode_error [OF a p1, of ev_ex, unfolded j]
      make_blank_canvas_or_decode_error [OF a p2, of ev_ex]
    by simp
qed

section \<open>Access control\<close>

text \<open>
  Claim C8. A login request whose password differs from the configured one leaves the
  session as it was, and the hits table and the files too; a \<open>POST\<close> only queues the
  flash message and shows the login page again. If the admin flag was not set before, it
  is not set afterwards, and a following request to \<open>make\<close>, whatever it carries, is
  answered by a redirect to \<open>/login\<close> and changes nothing.
\<close>

theorem login_wrong_password_keeps_session:
  assumes "get_or (r_form req) ''password'' [] \<noteq> ADMIN_PASS cfg"
  shows "w_session (snd (login cfg req w)) = w_session w
       \<and> w_db (snd (login cfg req w)) = w_db w
       \<and> w_fs (snd (login cfg req w)) = w_fs w
       \<and> (r_method req = ''POST'' \<longrightarrow>
            login cfg req w =
              (Inr (Rendered ''login.html'' []),
               w\<lparr>w_flashes := w_flashes w @ [(''error'', ''Wrong password'')]\<rparr>))
       \<and> (\<not> truthy (session_get w ''admin'' SNone) \<longrightarrow>
            \<not> truthy (session_get (snd (login cfg req w)) ''admin'' SNone)
          \<and> make ev req' (snd (login cfg req w)) =
              (Inr (Redirect ''/login''), snd (login cfg req w)))"
  using assms
  by (simp add: login_def make_def session_get_def url_for_login_def)

theorem login_wrong_password_keeps_session_witness:
  "get_or (r_form req_bad_login) ''password'' [] \<noteq> ADMIN_PASS cfg_ex
   \<and> r_method req_bad_login = ''POST''
   \<and> \<not> truthy (session_get w_ex ''admin'' SNone)
   \<and> login cfg_ex req_bad_login w_ex =
       (Inr (Rendered ''login.html'' []), w_ex\<lparr>w_flashes := [(''error'', ''Wrong password'')]\<rparr>)
   \<and> w_session (snd (login cfg_ex req_bad_login w_ex)) = w_session w_ex
   \<and> make ev_ex req_no_upload (snd (login cfg_ex req_bad_login w_ex)) =
       (Inr (Redirect ''/login''), w_ex\<lparr>w_flashes := [(''error'', ''Wrong password'')]\<rparr>)"
proof -
  have h: "get_or (r_form req_bad_login) ''password'' [] \<noteq> ADMIN_PASS cfg_ex"
    by (simp add: req_bad_login_def cfg_ex_def get_or_def)
  have p: "r_method req_bad_login = ''POST''"
    by (simp add: req_bad_login_def)
  have a: "\<not> truthy (session_get w_ex ''admin'' SNone)"
    by (simp add: w_ex_def session_get_def get_or_def)
  have f: "w_flashes w_ex = []"
    by (simp add: w_ex_def)
  note t = login_wrong_password_keeps_session [OF h, of w_ex ev_ex req_no_upload]
  have l: "login cfg_ex req_bad_login w_ex =
       (Inr (Rendered ''login.html'' []), w_ex\<lparr>w_flashes := [(''error'', ''Wrong password'')]\<rparr>)"
    using t p by (simp add: f)
  have m: "make ev_ex req_no_upload (snd (login cfg_ex req_bad_login w_ex)) =
       (Inr (Redirect ''/login''), snd (login cfg_ex req_bad_login w_ex))"
    using t a by simp
  show ?thesis
    using h p a l m t by simp
qed

section \<open>The delivery layer\<close>

lemma clickable_redirect_outcome:
  assumes "geo_ip (e_http_get ev) (client_ip req) = Inr g"
  shows "clickable_redirect ev req doc_ref w =
           (Inr (Redirect ''https://your-site.com/thank-you''),
            w\<lparr>w_db := \<lparr>db_rows = db_rows (w_db w) @ [hit_row ev req doc_ref w g],
                       db_seq = next_rowid (w_db w)\<rparr>\<rparr>)"
  using assms
  by (cases g) (simp add: clickable_redirect_def Let_def insert_hit_def hit_row_def)

lemma dl_pdf_world:
  assumes "geo_ip (e_http_get ev) (client_ip req) = Inr g"
  shows "snd (dl_pdf ev req doc_ref pdfname w) =
           w\<lparr>w_db := \<lparr>db_rows = db_rows (w_db w) @ [hit_row ev req doc_ref w g],
                      db_seq = next_rowid (w_db w)\<rparr>\<rparr>"
  using assms
  by (cases g) (simp add: dl_pdf_def Let_def insert_hit_def hit_row_def)

lemma dl_pdf_response:
  "fst (dl_pdf ev req doc_ref pdfname w) =
     (if \<not> path_exists (w_fs w) (os_path_join OUTDIR pdfname) then Inr (Text ''Not found'' 404)
      else send_file (w_fs w) (os_path_join OUTDIR pdfname) True pdfname ''application/pdf'')"
proof -
  obtain g where "geo_ip (e_http_get ev) (client_ip req) = Inr g"
    using geo_ip_total by blast
  then show ?thesis
    by (cases g) (simp add: dl_pdf_def Let_def)
qed

lemma download_generated_world: "snd (download_generated name w) = w"
  by (simp add: download_generated_def Let_def)

lemma download_generated_response:
  "fst (download_generated name w) =
     (if \<not> path_exists (w_fs w) (os_path_join OUTDIR name) then Inr (Text ''Not found'' 404)
      else send_file (w_fs w) (os_path_join OUTDIR name) True name
             (get_or mime_map (last_field CHR ''.'' (lower name)) ''application/octet-stream''))"
  by (simp add: download_generated_def Let_def)

lemma send_file_result:
  "send_file fs p a d m = Inr (FileResponse p' f a' d' m') \<Longrightarrow> p' = p \<and> fs (resolve p) = Some f"
  by (auto simp: send_file_def split: option.splits node.splits)

lemma hit_row_doc_ref: "h_doc_ref (hit_row ev req doc_ref w g) = doc_ref"
  by (cases g) (simp add: hit_row_def)

text \<open>
  Claim C1, as amended. The tracking redirect and the tracked PDF download each append
  exactly one row to the hits table, built from the request and from the result of the
  geolocation lookup for the requester's address, and the redirect is returned with that
  row in place; \<open>download_generated\<close> takes no document reference, records nothing and
  leaves the whole state as it was.
\<close>

theorem tracked_accesses_record_one_hit:
  "geo_ip (e_http_get ev) (client_ip req) = Inr (geo_of ev req)
   \<and> clickable_redirect ev req doc_ref w =
       (Inr (Redirect ''https://your-site.com/thank-you''),
        w\<lparr>w_db := \<lparr>db_rows = db_rows (w_db w) @ [hit_row ev req doc_ref w (geo_of ev req)],
                   db_seq = next_rowid (w_db w)\<rparr>\<rparr>)
   \<and> snd (dl_pdf ev req doc_ref pdfname w) =
        w\<lparr>w_db := \<lparr>db_rows = db_rows (w_db w) @ [hit_row ev req doc_ref w (geo_of ev req)],
                   db_seq = next_rowid (w_db w)\<rparr>\<rparr>
   \<and> snd (download_generated name w) = w"
  using geo_of_eq [of ev req]
  by (simp add: clickable_redirect_outcome dl_pdf_world download_generated_world)

text \<open>
  Claim C1 as stated fails: a download through \<open>download_generated\<close> serves the stored
  picture and the hits table has the rows it had, not one more.
\<close>

theorem download_generated_records_no_hit:
  "fst (download_generated ''document_abc12345.png'' w_ex) =
     Inr (FileResponse ''generated/document_abc12345.png'' (PngFile img_ex) True
            ''document_abc12345.png'' ''image/png'')
   \<and> db_rows (w_db (snd (download_generated ''document_abc12345.png'' w_ex))) = db_rows (w_db w_ex)
   \<and> length (db_rows (w_db (snd (download_generated ''document_abc12345.png'' w_ex))))
        \<noteq> Suc (length (db_rows (w_db w_ex)))"
  by (simp add: download_generated_def Let_def path_exists_def send_file_def w_ex_def fs_ex_def
        resolve_def split_fields_def os_path_join_def OUTDIR_def lower_def lower_char_def
        last_field_def mime_map_def get_or_def)

theorem tracked_accesses_record_one_hit_witness:
  "clickable_redirect ev_ex req_get ''abc12345'' w_ex =
     (Inr (Redirect ''https://your-site.com/thank-you''),
      w_ex\<lparr>w_db := \<lparr>db_rows =
                [\<lparr>h_id = 1, h_doc_ref = ''abc12345'', h_user_id = SStr ''anonymous'',
                  h_ip = ''203.0.113.9'', h_ua = ''curl/8'', h_ts = ''2024-05-01T12:00:00Z'',
                  h_lat = SNone, h_lon = SNone, h_city = SNone, h_region = SNone,
                  h_country = SNone\<rparr>],
              db_seq = 1\<rparr>\<rparr>)
   \<and> snd (download_generated ''document_abc12345.png'' w_ex) = w_ex"
proof -
  have g: "geo_of ev_ex req_get = (SNone, SNone, SNone, SNone, SNone)"
    by (simp add: geo_of_def geo_ip_def geo_ip_try_def ev_ex_def no_geo_def)
  have i: "client_ip req_get = ''203.0.113.9''"
    by (simp add: client_ip_def req_get_def get_or_def first_field_def strip_def is_space_def)
  have r: "hit_row ev_ex req_get ''abc12345'' w_ex (SNone, SNone, SNone, SNone, SNone) =
             \<lparr>h_id = 1, h_doc_ref = ''abc12345'', h_user_id = SStr ''anonymous'',
              h_ip = ''203.0.113.9'', h_ua = ''curl/8'', h_ts = ''2024-05-01T12:00:00Z'',
              h_lat = SNone, h_lon = SNone, h_city = SNone, h_region = SNone,
              h_country = SNone\<rparr>"
    by (simp add: hit_row_def i)
       (simp add: w_ex_def db_ex_def next_rowid_def max_rowid_def session_get_def get_or_def
          req_get_def ev_ex_def)
  have n: "next_rowid (w_db w_ex) = 1"
    by (simp add: w_ex_def db_ex_def next_rowid_def max_rowid_def)
  have e: "db_rows (w_db w_ex) = []"
    by (simp add: w_ex_def db_ex_def)
  show ?thesis
    using tracked_accesses_record_one_hit
            [of ev_ex req_get "''abc12345''" w_ex "''x.pdf''" "''document_abc12345.png''"]
    by (simp add: g r n e)
qed

text \<open>
  Claim C2, as amended. The handlers do not check the name they are given; the names
  they can be given are those a route passes, not empty and without a slash. For every
  such name no file outside the output directory is served: whenever
  \<open>download_generated\<close> or \<open>dl_pdf\<close> answers with a file, the path opened is
  \<open>generated/<name>\<close>, inside the output directory (the working directory and the
  output directory being directories). The path handed on for opening stays within the
  output directory for every such name except \<open>..\<close>; for \<open>.\<close> it is the output
  directory itself.
\<close>

theorem routed_names_serve_only_inside_outdir:
  assumes "route_segment name"
    and "w_fs w (False, []) = Some Dir" and "w_fs w (False, [OUTDIR]) = Some Dir"
  shows "(name \<noteq> ''..'' \<longrightarrow> within_outdir (resolve (os_path_join OUTDIR name)))
       \<and> (name = ''.'' \<longrightarrow> resolve (os_path_join OUTDIR name) = (False, [OUTDIR]))
       \<and> (name \<noteq> ''.'' \<and> name \<noteq> ''..'' \<longrightarrow>
            resolve (os_path_join OUTDIR name) = (False, [OUTDIR, name]))
       \<and> (\<forall>p f a d m. fst (download_generated name w) = Inr (FileResponse p f a d m) \<longrightarrow>
             p = os_path_join OUTDIR name \<and> resolve p = (False, [OUTDIR, name])
             \<and> inside_outdir (resolve p))
       \<and> (\<forall>p f a d m. fst (dl_pdf ev req doc_ref name w) = Inr (FileResponse p f a d m) \<longrightarrow>
             p = os_path_join OUTDIR name \<and> resolve p = (False, [OUTDIR, name])
             \<and> inside_outdir (resolve p))"
proof -
  let ?p = "os_path_join OUTDIR name"
  have ns: "CHR ''/'' \<notin> set name" and ne: "name \<noteq> []"
    using assms(1) by (simp_all add: route_segment_def)
  note r = resolve_OUTDIR [OF ns]
  have w: "within_outdir (resolve ?p)" if "name \<noteq> ''..''"
    using that ne by (simp add: r within_outdir_def)
  have dot: "resolve ?p = (False, [OUTDIR])" if "name = ''.''"
    using r that by simp
  have reg: "resolve ?p = (False, [OUTDIR, name])" if "name \<noteq> ''.'' \<and> name \<noteq> ''..''"
    using that ne by (simp add: r)
  have served: "p = ?p \<and> resolve p = (False, [OUTDIR, name]) \<and> inside_outdir (resolve p)"
    if s: "send_file (w_fs w) ?p a0 d0 m0 = Inr (FileResponse p f a d m)"
    for a0 d0 m0 p f a d m
  proof -
    from send_file_result [OF s] have e: "p = ?p" and st: "w_fs w (resolve ?p) = Some f"
      by simp_all
    have nd: "f \<noteq> Dir"
      using s st by (auto simp: send_file_def)
    have "name \<noteq> ''.'' \<and> name \<noteq> ''..''"
      using st nd assms(2,3) ne by (auto simp: r split: if_splits)
    then show ?thesis
      using reg e by (simp add: inside_outdir_def)
  qed
  have d: "p = ?p \<and> resolve p = (False, [OUTDIR, name]) \<and> inside_outdir (resolve p)"
    if "fst (download_generated name w) = Inr (FileResponse p f a d m)" for p f a d m
  proof -
    from that have "send_file (w_fs w) ?p True name
        (get_or mime_map (last_field CHR ''.'' (lower name)) ''application/octet-stream'')
          = Inr (FileResponse p f a d m)"
      by (simp add: download_generated_response split: if_splits)
    then show ?thesis by (rule served)
  qed
  have l: "p = ?p \<and> resolve p = (False, [OUTDIR, name]) \<and> inside_outdir (resolve p)"
    if "fst (dl_pdf ev req doc_ref name w) = Inr (FileResponse p f a d m)" for p f a d m
  proof -
    from that have "send_file (w_fs w) ?p True name ''application/pdf''
          = Inr (FileResponse p f a d m)"
      by (simp add: dl_pdf_response split: if_splits)
    then show ?thesis by (rule served)
  qed
  show ?thesis
    using w dot reg d l by blast
qed

theorem routed_names_serve_only_inside_outdir_witness:
  "route_segment ''document_abc12345.pdf''
   \<and> w_fs w_ex (False, []) = Some Dir \<and> w_fs w_ex (False, [OUTDIR]) = Some Dir
   \<and> fst (download_generated ''document_abc12345.pdf'' w_ex) =
        Inr (FileResponse ''generated/document_abc12345.pdf'' (PdfFile pdf_ex) True
               ''document_abc12345.pdf'' ''application/pdf'')
   \<and> resolve ''generated/document_abc12345.pdf''
        = (False, [''generated'', ''document_abc12345.pdf''])
   \<and> inside_outdir (resolve ''generated/document_abc12345.pdf'')
   \<and> within_outdir (resolve (os_path_join OUTDIR ''document_abc12345.pdf''))
   \<and> route_segment ''.''
   \<and> within_outdir (resolve (os_path_join OUTDIR ''.''))
   \<and> resolve (os_path_join OUTDIR ''.'') = (False, [''generated''])"
proof -
  have s: "route_segment ''document_abc12345.pdf''" and s': "route_segment ''.''"
    by (simp_all add: route_segment_def)
  have c: "w_fs w_ex (False, []) = Some Dir" and o: "w_fs w_ex (False, [OUTDIR]) = Some Dir"
    by (simp_all add: w_ex_def fs_ex_def OUTDIR_def)
  have d: "fst (download_generated ''document_abc12345.pdf'' w_ex) =
        Inr (FileResponse ''generated/document_abc12345.pdf'' (PdfFile pdf_ex) True
               ''document_abc12345.pdf'' ''application/pdf'')"
    by (simp add: download_generated_def Let_def path_exists_def send_file_def w_ex_def fs_ex_def
        resolve_def split_fields_def os_path_join_def OUTDIR_def lower_def lower_char_def
        last_field_def mime_map_def get_or_def)
  note t = routed_names_serve_only_inside_outdir [OF s c o, of ev_ex req_get "''abc12345''"]
  note t' = routed_names_serve_only_inside_outdir [OF s' c o, of ev_ex req_get "''abc12345''"]
  have 1: "resolve ''generated/document_abc12345.pdf''
        = (False, [''generated'', ''document_abc12345.pdf''])
      \<and> inside_outdir (resolve ''generated/document_abc12345.pdf'')"
    using t d by (auto simp: OUTDIR_def)
  have 2: "within_outdir (resolve (os_path_join OUTDIR ''document_abc12345.pdf''))"
    using t by (simp add: within_outdir_def)
  have 3: "within_outdir (resolve (os_path_join OUTDIR ''.''))
      \<and> resolve (os_path_join OUTDIR ''.'') = (False, [''generated''])"
    using t' by (simp add: OUTDIR_def within_outdir_def)
  show ?thesis
    using s s' c o d 1 2 3 by blast
qed

text \<open>
  Claim C2 as stated fails at the name \<open>..\<close>, which a route accepts: the existence
  check passes, and the path each handler hands on for opening is the parent of the
  output directory, outside it. Opening it fails, as it is a directory, so the request
  ends in an error and no file is served.
\<close>

theorem dotdot_opens_parent_of_outdir:
  "route_segment ''..''
   \<and> path_exists (w_fs w_ex) (os_path_join OUTDIR ''..'')
   \<and> resolve (os_path_join OUTDIR ''..'') = (False, [])
   \<and> \<not> within_outdir (resolve (os_path_join OUTDIR ''..''))
   \<and> \<not> inside_outdir (resolve (os_path_join OUTDIR ''..''))
   \<and> fst (download_generated ''..'' w_ex) = Inl IsADirectoryError
   \<and> fst (dl_pdf ev_ex req_get ''abc12345'' ''..'' w_ex) = Inl IsADirectoryError"
proof -
  have j: "os_path_join OUTDIR ''..'' = ''generated/..''"
    by (simp add: os_path_join_def OUTDIR_def)
  have r: "resolve ''generated/..'' = (False, [])"
    by (simp add: resolve_def split_fields_def)
  have f: "w_fs w_ex (False, []) = Some Dir"
    by (simp add: w_ex_def fs_ex_def)
  have "route_segment ''..''"
    by (simp add: route_segment_def)
  moreover have "path_exists (w_fs w_ex) (os_path_join OUTDIR ''..'')"
    by (simp add: path_exists_def j r f)
  moreover have "resolve (os_path_join OUTDIR ''..'') = (False, [])"
    by (simp add: j r)
  moreover have "\<not> within_outdir (resolve (os_path_join OUTDIR ''..''))"
    by (simp add: j r within_outdir_def)
  moreover have "\<not> inside_outdir (resolve (os_path_join OUTDIR ''..''))"
    by (simp add: j r inside_outdir_def)
  moreover have "fst (download_generated ''..'' w_ex) = Inl IsADirectoryError"
    by (simp add: download_generated_response path_exists_def send_file_def j r f)
  moreover have "fst (dl_pdf ev_ex req_get ''abc12345'' ''..'' w_ex) = Inl IsADirectoryError"
    by (simp add: dl_pdf_response path_exists_def send_file_def j r f)
  ultimately show ?thesis by blast
qed

text \<open>
  Claim C9. In \<open>dl_pdf\<close> the row is inserted before the file is looked for: when the
  requested PDF does not exist the answer is \<open>Not found\<close> with status 404, and the hits
  table has grown by exactly one row, which carries the given document reference.
\<close>

theorem dl_pdf_records_hit_before_not_found:
  assumes "\<not> path_exists (w_fs w) (os_path_join OUTDIR pdfname)"
  shows "dl_pdf ev req doc_ref pdfname w =
           (Inr (Text ''Not found'' 404),
            w\<lparr>w_db := \<lparr>db_rows = db_rows (w_db w) @ [hit_row ev req doc_ref w (geo_of ev req)],
                       db_seq = next_rowid (w_db w)\<rparr>\<rparr>)
       \<and> h_doc_ref (hit_row ev req doc_ref w (geo_of ev req)) = doc_ref
       \<and> length (db_rows (w_db (snd (dl_pdf ev req doc_ref pdfname w))))
           = Suc (length (db_rows (w_db w)))"
proof -
  have s: "snd (dl_pdf ev req doc_ref pdfname w) =
      w\<lparr>w_db := \<lparr>db_rows = db_rows (w_db w) @ [hit_row ev req doc_ref w (geo_of ev req)],
                 db_seq = next_rowid (w_db w)\<rparr>\<rparr>"
    using geo_of_eq by (rule dl_pdf_world)
  have f: "fst (dl_pdf ev req doc_ref pdfname w) = Inr (Text ''Not found'' 404)"
    using assms by (simp add: dl_pdf_response)
  show ?thesis
    using s f by (simp add: prod_eq_iff hit_row_doc_ref)
qed

theorem dl_pdf_records_hit_before_not_found_witness:
  "\<not> path_exists (w_fs w_ex) (os_path_join OUTDIR ''missing.pdf'')
   \<and> dl_pdf ev_ex req_get ''abc12345'' ''missing.pdf'' w_ex =
       (Inr (Text ''Not found'' 404),
        w_ex\<lparr>w_db := \<lparr>db_rows =
                  [\<lparr>h_id = 1, h_doc_ref = ''abc12345'', h_user_id = SStr ''anonymous'',
                    h_ip = ''203.0.113.9'', h_ua = ''curl/8'', h_ts = ''2024-05-01T12:00:00Z'',
                    h_lat = SNone, h_lon = SNone, h_city = SNone, h_region = SNone,
                    h_country = SNone\<rparr>],
                db_seq = 1\<rparr>\<rparr>)"
proof -
  have p: "\<not> path_exists (w_fs w_ex) (os_path_join OUTDIR ''missing.pdf'')"
    by (simp add: path_exists_def w_ex_def fs_ex_def resolve_def split_fields_def
          os_path_join_def OUTDIR_def)
  have g: "geo_of ev_ex req_get = (SNone, SNone, SNone, SNone, SNone)"
    by (simp add: geo_of_def geo_ip_def geo_ip_try_def ev_ex_def no_geo_def)
  have i: "client_ip req_get = ''203.0.113.9''"
    by (simp add: client_ip_def req_get_def get_or_def first_field_def strip_def is_space_def)
  have r: "hit_row ev_ex req_get ''abc12345'' w_ex (SNone, SNone, SNone, SNone, SNone) =
             \<lparr>h_id = 1, h_doc_ref = ''abc12345'', h_user_id = SStr ''anonymous'',
              h_ip = ''203.0.113.9'', h_ua = ''curl/8'', h_ts = ''2024-05-01T12:00:00Z'',
              h_lat = SNone, h_lon = SNone, h_city = SNone, h_region = SNone,
              h_country = SNone\<rparr>"
    by (simp add: hit_row_def i)
       (simp add: w_ex_def db_ex_def next_rowid_def max_rowid_def session_get_def get_or_def
          req_get_def ev_ex_def)
  have n: "next_rowid (w_db w_ex) = 1"
    by (simp add: w_ex_def db_ex_def next_rowid_def max_rowid_def)
  have e: "db_rows (w_db w_ex) = []"
    by (simp add: w_ex_def db_ex_def)
  show ?thesis
    using p dl_pdf_records_hit_before_not_found [OF p, of ev_ex req_get "''abc12345''"]
    by (simp add: g r n e)
qed

text \<open>
  Claim C10. In \<open>dl_pdf\<close> the file served depends on \<open>pdfname\<close> alone and the row
  recorded carries \<open>doc_ref\<close>, with nothing relating the two: for any document reference
  and any name under which a file is stored in the output directory, the answer streams
  that file, as an attachment named \<open>pdfname\<close> and typed as PDF, and the appended row
  has the given document reference.
\<close>

theorem dl_pdf_serves_pdfname_logs_doc_ref:
  assumes "w_fs w (resolve (os_path_join OUTDIR pdfname)) = Some f" and "f \<noteq> Dir"
  shows "dl_pdf ev req doc_ref pdfname w =
           (Inr (FileResponse (os_path_join OUTDIR pdfname) f True pdfname ''application/pdf''),
            w\<lparr>w_db := \<lparr>db_rows = db_rows (w_db w) @ [hit_row ev req doc_ref w (geo_of ev req)],
                       db_seq = next_rowid (w_db w)\<rparr>\<rparr>)
       \<and> h_doc_ref (hit_row ev req doc_ref w (geo_of ev req)) = doc_ref"
proof -
  have s: "snd (dl_pdf ev req doc_ref pdfname w) =
      w\<lparr>w_db := \<lparr>db_rows = db_rows (w_db w) @ [hit_row ev req doc_ref w (geo_of ev req)],
                 db_seq = next_rowid (w_db w)\<rparr>\<rparr>"
    using geo_of_eq by (rule dl_pdf_world)
  have "send_file (w_fs w) (os_path_join OUTDIR pdfname) True pdfname ''application/pdf'' =
          Inr (FileResponse (os_path_join OUTDIR pdfname) f True pdfname ''application/pdf'')"
    using assms by (cases f) (simp_all add: send_file_def)
  then have r: "fst (dl_pdf ev req doc_ref pdfname w) =
      Inr (FileResponse (os_path_join OUTDIR pdfname) f True pdfname ''application/pdf'')"
    using assms(1) by (simp add: dl_pdf_response path_exists_def)
  show ?thesis
    using s r by (simp add: prod_eq_iff hit_row_doc_ref)
qed

theorem dl_pdf_serves_pdfname_logs_doc_ref_witness:
  "w_fs w_ex (resolve (os_path_join OUTDIR ''document_abc12345.pdf'')) = Some (PdfFile pdf_ex)
   \<and> fst (dl_pdf ev_ex req_get ''zzzzzzzz'' ''document_abc12345.pdf'' w_ex) =
       Inr (FileResponse ''generated/document_abc12345.pdf'' (PdfFile pdf_ex) True
              ''document_abc12345.pdf'' ''application/pdf'')
   \<and> map h_doc_ref (db_rows (w_db (snd (dl_pdf ev_ex req_get ''zzzzzzzz''
        ''document_abc12345.pdf'' w_ex)))) = [''zzzzzzzz'']"
proof -
  have j: "os_path_join OUTDIR ''document_abc12345.pdf'' = ''generated/document_abc12345.pdf''"
    by (simp add: os_path_join_def OUTDIR_def)
  have p: "w_fs w_ex (resolve (os_path_join OUTDIR ''document_abc12345.pdf'')) = Some (PdfFile pdf_ex)"
    by (simp add: j w_ex_def fs_ex_def resolve_def split_fields_def)
  have e: "db_rows (w_db w_ex) = []"
    by (simp add: w_ex_def db_ex_def)
  show ?thesis
    using p dl_pdf_serves_pdfname_logs_doc_ref [OF p, of ev_ex req_get "''zzzzzzzz''"]
    by (simp add: j e)
qed

end
